theory Spec2Isabelle
  imports Complex_Main
begin

section \<open>JavaScript values\<close>

text \<open>
  A JavaScript number is an IEEE double: a finite value, one of the two infinities, or NaN.
  Finite values are carried as reals (every double is a real); the two zeros are
  identified, since the code only ever compares them with \<open>===\<close> and \<open><\<close>.
\<close>

datatype jsnum = Fin real | PInf | NInf | NaN

text \<open>\<open>a < b\<close> on numbers: false as soon as one side is NaN.\<close>

fun js_lt :: "jsnum \<Rightarrow> jsnum \<Rightarrow> bool" where
  "js_lt NaN _ = False"
| "js_lt _ NaN = False"
| "js_lt (Fin a) (Fin b) = (a < b)"
| "js_lt (Fin _) PInf = True"
| "js_lt (Fin _) NInf = False"
| "js_lt PInf _ = False"
| "js_lt NInf NInf = False"
| "js_lt NInf _ = True"

text \<open>\<open>a >= b\<close> on numbers.\<close>

fun js_ge :: "jsnum \<Rightarrow> jsnum \<Rightarrow> bool" where
  "js_ge NaN _ = False"
| "js_ge _ NaN = False"
| "js_ge a b = (\<not> js_lt a b)"

text \<open>\<open>a <= b\<close> on numbers.\<close>

fun js_le :: "jsnum \<Rightarrow> jsnum \<Rightarrow> bool" where
  "js_le NaN _ = False"
| "js_le _ NaN = False"
| "js_le a b = (\<not> js_lt b a)"

text \<open>\<open>a > b\<close> on numbers.\<close>

definition js_gt :: "jsnum \<Rightarrow> jsnum \<Rightarrow> bool" where
  "js_gt a b = js_lt b a"

text \<open>\<open>Number.isFinite\<close>.\<close>

fun isFinite :: "jsnum \<Rightarrow> bool" where
  "isFinite (Fin _) = True"
| "isFinite _ = False"

text \<open>
  A document value: what \<open>JSON.parse\<close> or the YAML loader returns. An object is the
  list of its own properties in enumeration order.
\<close>

datatype json =
    JNull
  | JBool bool
  | JNum jsnum
  | JStr string
  | JArr "json list"
  | JObj "(string \<times> json) list"

text \<open>The exceptions of the model: the two JavaScript errors the code can raise, and a
  failed operation of a JSON patch.\<close>

datatype jserror = TypeError | RangeError | PatchError

text \<open>
  What the lookup of a path in a table of comparison functions gives: nothing, a
  comparison function, or a value that is not a function.
\<close>

datatype sorterLookup = NoSorter | Sorter "json \<Rightarrow> json \<Rightarrow> jserror + jsnum" | NotCallable

text \<open>\<open>String.prototype.startsWith\<close> and \<open>endsWith\<close>.\<close>

definition startsWith :: "string \<Rightarrow> string \<Rightarrow> bool" where
  "startsWith s p = (take (length p) s = p)"

definition endsWith :: "string \<Rightarrow> string \<Rightarrow> bool" where
  "endsWith s p = (length p \<le> length s \<and> drop (length s - length p) s = p)"

section \<open>Facts and anchors (lib/card/types)\<close>

datatype gate = OK | Warn | Require

datatype sourceKind = extracted | inferred | manual

record anchor =
  path :: string
  startLine :: jsnum
  endLine :: jsnum
  commit :: string
  fingerprint :: "string option"
  kind :: "string option"

record fact =
  jsonPath :: string
  jsonPointer :: "string option"
  currentValue :: "json option"
  proposedValue :: "json option"
  sourceKind :: sourceKind
  repoSources :: "anchor list"
  confidence :: jsnum
  gate :: gate
  verifierNotes :: "string option"

text \<open>
  \<open>Partial<Anchor>\<close> as it arrives from the reasoning service: every field may be
  missing (\<open>None\<close> stands for \<open>undefined\<close>, \<open>null\<close> or a value of the wrong type).
\<close>

record rawAnchor =
  rpath :: "string option"
  rstartLine :: "jsnum option"
  rendLine :: "jsnum option"
  rcommit :: "string option"
  rkind :: "string option"

text \<open>\<open>RawFactPayload\<close> of the extractor and \<open>Partial<Fact>\<close> of the reasoner.\<close>

record rawFact =
  rjsonPath :: "string option"
  rjsonPointer :: "string option"
  rproposedValue :: "json option"
  rcurrentValue :: "json option"
  rrepoSources :: "rawAnchor list option"
  rconfidence :: "jsnum option"
  rgate :: "gate option"
  rverifierNotes :: "string option"
  rsourceKind :: "sourceKind option"

text \<open>The nullish-coalescing operator on a value that may be \<open>null\<close>.\<close>

fun nullish :: "json option \<Rightarrow> bool" where
  "nullish None = True"
| "nullish (Some JNull) = True"
| "nullish (Some _) = False"

definition coalesce :: "json option \<Rightarrow> json option \<Rightarrow> json option" where
  "coalesce a b = (if nullish a then b else a)"

text \<open>\<open>a ?? b\<close> where \<open>a\<close> cannot be \<open>null\<close> but may be \<open>undefined\<close>.\<close>

fun orElse :: "'a option \<Rightarrow> 'a \<Rightarrow> 'a" where
  "orElse None d = d"
| "orElse (Some a) _ = a"

section \<open>The extractor's merge (scripts/src/llm/extractor.ts)\<close>

text \<open>\<open>normalizeConfidence\<close>: a finite number is clamped into [0, 1], anything else
  gives the fallback.\<close>

fun normalizeConfidence :: "jsnum option \<Rightarrow> jsnum \<Rightarrow> jsnum" where
  "normalizeConfidence (Some (Fin v)) fallback =
     (if v < 0 then Fin 0 else if v > 1 then Fin 1 else Fin v)"
| "normalizeConfidence _ fallback = fallback"

text \<open>\<open>computeGate\<close>.\<close>

definition computeGate :: "jsnum \<Rightarrow> gate" where
  "computeGate c =
     (if js_ge c (Fin (8/10)) then OK
      else if js_ge c (Fin (65/100)) then Warn
      else Require)"

text \<open>\<open>/^[0-9a-fA-F]{7,40}$/\<close>.\<close>

definition isHexDigit :: "char \<Rightarrow> bool" where
  "isHexDigit c = (c \<in> set ''0123456789abcdefABCDEF'')"

definition SHA_REGEX :: "string \<Rightarrow> bool" where
  "SHA_REGEX s = (7 \<le> length s \<and> length s \<le> 40 \<and> list_all isHexDigit s)"

definition VALID_KINDS :: "string list" where
  "VALID_KINDS = [''code'', ''openapi'', ''metrics'', ''docs'', ''config'', ''test'']"

text \<open>The kind given to an anchor whose own kind is not a valid one.\<close>

definition kindFromPath :: "string option \<Rightarrow> string" where
  "kindFromPath p =
     (case p of
        None \<Rightarrow> ''code''
      | Some q \<Rightarrow>
          if endsWith q ''.md'' then ''docs''
          else if endsWith q ''.json'' \<or> endsWith q ''.yaml'' then ''config''
          else ''code'')"

definition normalizeAnchor :: "string \<Rightarrow> rawAnchor \<Rightarrow> anchor" where
  "normalizeAnchor headSha a =
     (let c0 = orElse (rcommit a) headSha;
          c = (if SHA_REGEX c0 then c0 else headSha);
          k = (case rkind a of
                 Some k0 \<Rightarrow> if k0 \<in> set VALID_KINDS then k0 else kindFromPath (rpath a)
               | None \<Rightarrow> kindFromPath (rpath a))
      in \<lparr> path = orElse (rpath a) [],
           startLine = orElse (rstartLine a) (Fin 1),
           endLine = (case rendLine a of Some e \<Rightarrow> e | None \<Rightarrow> orElse (rstartLine a) (Fin 1)),
           commit = c,
           fingerprint = None,
           kind = Some k \<rparr>)"

text \<open>\<open>normalizeAnchors\<close>: anchors without a string path are dropped, the rest are
  completed, and anchors whose path is empty are dropped.\<close>

definition normalizeAnchors :: "rawAnchor list \<Rightarrow> string \<Rightarrow> anchor list" where
  "normalizeAnchors anchors headSha =
     filter (\<lambda>a. path a \<noteq> [])
       (map (normalizeAnchor headSha) (filter (\<lambda>a. rpath a \<noteq> None) anchors))"

section \<open>The run-time environment\<close>

text \<open>
  The built-ins whose results depend on the JavaScript engine, its locale data and its
  time zone are parameters of the model: the two collations used by the code
  (\<open>a.localeCompare(b)\<close> and \<open>a.localeCompare(b, undefined, {sensitivity: "base"})\<close>),
  \<open>Date.parse\<close> (\<open>None\<close> for NaN, otherwise milliseconds since the epoch),
  \<open>Date.prototype.toISOString\<close>, \<open>String(n)\<close> on a number, \<open>Number(s)\<close> on a string,
  and what a table written as an object literal gives for a key it does not define (a
  member of \<open>Object.prototype\<close> such as \<open>constructor\<close>, used as a comparison function).
\<close>

record env =
  localeCompare :: "string \<Rightarrow> string \<Rightarrow> int"
  localeCompareBase :: "string \<Rightarrow> string \<Rightarrow> int"
  dateParse :: "string \<Rightarrow> real option"
  toISOString :: "real \<Rightarrow> string"
  numToString :: "jsnum \<Rightarrow> string"
  strToNumber :: "string \<Rightarrow> jsnum"
  inheritedSorter :: "string \<Rightarrow> sorterLookup"

text \<open>
  \<open>Array.prototype.sort\<close> with a comparison function. The sort is stable, and an
  element \<open>y\<close> goes before \<open>x\<close> exactly when the comparison \<open>cmp(y, x)\<close> is negative (a
  NaN result counts as zero). It is modelled as a stable insertion sort; \<open>lt y x\<close> stands
  for \<open>cmp(y, x) < 0\<close>. For a consistent comparison function every stable sort gives this
  result; for an inconsistent one the language leaves the order to the engine.
\<close>

fun insort_by :: "('a \<Rightarrow> 'a \<Rightarrow> bool) \<Rightarrow> 'a \<Rightarrow> 'a list \<Rightarrow> 'a list" where
  "insort_by lt x [] = [x]"
| "insort_by lt x (y # ys) = (if lt y x then y # insort_by lt x ys else x # y # ys)"

definition sort_by :: "('a \<Rightarrow> 'a \<Rightarrow> bool) \<Rightarrow> 'a list \<Rightarrow> 'a list" where
  "sort_by lt xs = foldr (insort_by lt) xs []"

text \<open>
  A \<open>Map\<close> keyed by strings, in insertion order: \<open>set\<close> on a key that is present keeps
  the key's position.
\<close>

fun mapSet :: "string \<Rightarrow> 'v \<Rightarrow> (string \<times> 'v) list \<Rightarrow> (string \<times> 'v) list" where
  "mapSet k v [] = [(k, v)]"
| "mapSet k v ((k', v') # m) = (if k = k' then (k, v) # m else (k', v') # mapSet k v m)"

definition mapGet :: "(string \<times> 'v) list \<Rightarrow> string \<Rightarrow> 'v option" where
  "mapGet m k = map_of m k"

definition mapValues :: "(string \<times> 'v) list \<Rightarrow> 'v list" where
  "mapValues m = map snd m"

text \<open>Facts sorted by \<open>a.jsonPath.localeCompare(b.jsonPath)\<close>.\<close>

definition sortFactsByPath :: "env \<Rightarrow> fact list \<Rightarrow> fact list" where
  "sortFactsByPath E fs = sort_by (\<lambda>a b. localeCompare E (jsonPath a) (jsonPath b) < 0) fs"

text \<open>The map of the baseline facts, each set under its path.\<close>

definition factMap :: "fact list \<Rightarrow> (string \<times> fact) list" where
  "factMap fs = foldl (\<lambda>m f. mapSet (jsonPath f) f m) [] fs"

definition DETERMINISTIC_ONLY_PREFIXES :: "string list" where
  "DETERMINISTIC_ONLY_PREFIXES =
     [''$.provenance.changelog'', ''$.meta.createdAt'', ''$.meta.lastUpdated'', ''$.ai.'']"

definition isDeterministicOnly :: "string \<Rightarrow> bool" where
  "isDeterministicOnly p = list_ex (\<lambda>prefix. startsWith p prefix) DETERMINISTIC_ONLY_PREFIXES"

definition isDigit :: "char \<Rightarrow> bool" where
  "isDigit c = (c \<in> set ''0123456789'')"

text \<open>\<open>.replace(/^\$\.?/, "")\<close>.\<close>

fun stripDollar :: "string \<Rightarrow> string" where
  "stripDollar (a # b # r) =
     (if a = CHR ''$'' then (if b = CHR ''.'' then r else b # r) else a # b # r)"
| "stripDollar [a] = (if a = CHR ''$'' then [] else [a])"
| "stripDollar [] = []"

text \<open>\<open>.replace(/\[(\d+)\]/g, "/$1")\<close>.\<close>

function replaceBrackets :: "string \<Rightarrow> string" where
  "replaceBrackets [] = []"
| "replaceBrackets (c # cs) =
     (if c = CHR ''['' \<and> takeWhile isDigit cs \<noteq> []
         \<and> dropWhile isDigit cs \<noteq> [] \<and> hd (dropWhile isDigit cs) = CHR '']''
      then CHR ''/'' # takeWhile isDigit cs @ replaceBrackets (tl (dropWhile isDigit cs))
      else c # replaceBrackets cs)"
  by pat_completeness auto
termination
proof (relation "measure length")
  fix c :: char and cs :: string
  have "length (dropWhile isDigit cs) \<le> length cs"
    by (rule length_dropWhile_le)
  then show "(tl (dropWhile isDigit cs), c # cs) \<in> measure length"
    by simp
qed simp_all

text \<open>The pointer derived from a path when the candidate gives none.\<close>

definition derivePointer :: "string \<Rightarrow> string" where
  "derivePointer p =
     (let q = replaceBrackets (map (\<lambda>c. if c = CHR ''.'' then CHR ''/'' else c) (stripDollar p))
      in if startsWith q ''/'' then q else CHR ''/'' # q)"

text \<open>The fact stored for a candidate at a new path.\<close>

definition insertedFact :: "string \<Rightarrow> string \<Rightarrow> anchor list \<Rightarrow> rawFact \<Rightarrow> fact" where
  "insertedFact p pointer normalizedAnchors candidate =
     \<lparr> jsonPath = p,
       jsonPointer = Some pointer,
       currentValue = rcurrentValue candidate,
       proposedValue = rproposedValue candidate,
       sourceKind = orElse (rsourceKind candidate) extracted,
       repoSources = normalizedAnchors,
       confidence = normalizeConfidence (rconfidence candidate) (Fin (75/100)),
       gate = orElse (rgate candidate)
                (computeGate (normalizeConfidence (rconfidence candidate) (Fin (75/100)))),
       verifierNotes = rverifierNotes candidate \<rparr>"

text \<open>The fact stored for a candidate at an existing path.\<close>

definition updatedFact :: "fact \<Rightarrow> anchor list \<Rightarrow> rawFact \<Rightarrow> fact" where
  "updatedFact existing normalizedAnchors candidate =
     (let mergedAnchors = (if normalizedAnchors \<noteq> [] then normalizedAnchors else repoSources existing);
          c = normalizeConfidence (rconfidence candidate) (confidence existing)
      in \<lparr> jsonPath = jsonPath existing,
           jsonPointer = (case rjsonPointer candidate of Some q \<Rightarrow> Some q | None \<Rightarrow> jsonPointer existing),
           currentValue = currentValue existing,
           proposedValue = coalesce (rproposedValue candidate) (proposedValue existing),
           sourceKind = orElse (rsourceKind candidate) (sourceKind existing),
           repoSources = mergedAnchors,
           confidence = c,
           gate = orElse (rgate candidate) (computeGate c),
           verifierNotes = (case rverifierNotes candidate of Some n \<Rightarrow> Some n | None \<Rightarrow> verifierNotes existing) \<rparr>)"

text \<open>One round of the loop over the candidates in \<open>mergeFacts\<close>.\<close>

definition mergeCandidate :: "string \<Rightarrow> (string \<times> fact) list \<Rightarrow> rawFact \<Rightarrow> (string \<times> fact) list" where
  "mergeCandidate headSha m candidate =
     (case rjsonPath candidate of
        None \<Rightarrow> m
      | Some p \<Rightarrow>
          if p = [] then m
          else if isDeterministicOnly p then m
          else
            (case mapGet m p of
               None \<Rightarrow>
                 (let pointer =
                        (case rjsonPointer candidate of
                           None \<Rightarrow> derivePointer p
                         | Some q \<Rightarrow> if q = [] then derivePointer p else q);
                      normalizedAnchors = normalizeAnchors (orElse (rrepoSources candidate) []) headSha
                  in if pointer = [] then m
                     else if normalizedAnchors = [] then m
                     else mapSet p (insertedFact p pointer normalizedAnchors candidate) m)
             | Some existing \<Rightarrow>
                 mapSet p
                   (updatedFact existing
                      (normalizeAnchors (orElse (rrepoSources candidate) []) headSha) candidate)
                   m))"

text \<open>\<open>mergeFacts\<close>.\<close>

definition mergeFacts :: "env \<Rightarrow> rawFact list \<Rightarrow> fact list \<Rightarrow> string \<Rightarrow> fact list" where
  "mergeFacts E rawFacts baselineFacts headSha =
     (if rawFacts = [] then baselineFacts
      else sortFactsByPath E (mapValues (foldl (mergeCandidate headSha) (factMap baselineFacts) rawFacts)))"

section \<open>The reasoner's reconciliation (scripts/src/llm/reasoner.ts)\<close>

text \<open>An anchor of a patch, completed from the existing fact's first anchor.\<close>

definition reconcileAnchor :: "string \<Rightarrow> anchor list \<Rightarrow> rawAnchor \<Rightarrow> anchor" where
  "reconcileAnchor headSha existingSources a =
     (let first = (case existingSources of [] \<Rightarrow> None | x # _ \<Rightarrow> Some x);
          c0 = (case rcommit a of Some c \<Rightarrow> c
                | None \<Rightarrow> (case first of Some x \<Rightarrow> commit x | None \<Rightarrow> headSha));
          c = (if SHA_REGEX c0 then c0 else headSha);
          k0 = (case rkind a of Some k \<Rightarrow> Some k
                | None \<Rightarrow> (case first of Some x \<Rightarrow> kind x | None \<Rightarrow> None));
          k = (case k0 of
                 Some k1 \<Rightarrow> if k1 \<in> set VALID_KINDS then k1 else kindFromPath (rpath a)
               | None \<Rightarrow> kindFromPath (rpath a))
      in \<lparr> path = (case rpath a of Some p \<Rightarrow> p
                   | None \<Rightarrow> (case first of Some x \<Rightarrow> path x | None \<Rightarrow> [])),
           startLine = (case rstartLine a of Some n \<Rightarrow> n
                        | None \<Rightarrow> (case first of Some x \<Rightarrow> startLine x | None \<Rightarrow> Fin 1)),
           endLine = (case rendLine a of Some n \<Rightarrow> n
                      | None \<Rightarrow> (case first of Some x \<Rightarrow> endLine x | None \<Rightarrow> Fin 1)),
           commit = c,
           fingerprint = None,
           kind = Some k \<rparr>)"

text \<open>The fact stored for a patch at an existing path.\<close>

definition patchedFact :: "string \<Rightarrow> fact \<Rightarrow> rawFact \<Rightarrow> fact" where
  "patchedFact headSha existing patch =
     (let newAnchors =
            (case rrepoSources patch of
               None \<Rightarrow> repoSources existing
             | Some as \<Rightarrow>
                 if as \<noteq> [] then map (reconcileAnchor headSha (repoSources existing)) as
                 else repoSources existing)
      in existing
           \<lparr> jsonPointer := (case rjsonPointer patch of Some q \<Rightarrow> Some q | None \<Rightarrow> jsonPointer existing),
             proposedValue := coalesce (rproposedValue patch) (proposedValue existing),
             repoSources := newAnchors,
             confidence := (case rconfidence patch of Some c \<Rightarrow> c | None \<Rightarrow> confidence existing),
             gate := orElse (rgate patch) (gate existing),
             verifierNotes := (case rverifierNotes patch of Some n \<Rightarrow> Some n | None \<Rightarrow> verifierNotes existing) \<rparr>)"

text \<open>One round of the loop over the patches in \<open>reconcileFacts\<close>.\<close>

definition reconcilePatch :: "string \<Rightarrow> (string \<times> fact) list \<Rightarrow> rawFact \<Rightarrow> (string \<times> fact) list" where
  "reconcilePatch headSha m patch =
     (case rjsonPath patch of
        None \<Rightarrow> m
      | Some p \<Rightarrow>
          if p = [] then m
          else
            (case mapGet m p of
               None \<Rightarrow> m
             | Some existing \<Rightarrow> mapSet p (patchedFact headSha existing patch) m))"

text \<open>\<open>reconcileFacts\<close>.\<close>

definition reconcileFacts :: "env \<Rightarrow> fact list \<Rightarrow> rawFact list \<Rightarrow> string \<Rightarrow> fact list" where
  "reconcileFacts E baseFacts patches headSha =
     sortFactsByPath E (mapValues (foldl (reconcilePatch headSha) (factMap baseFacts) patches))"

section \<open>The verification pass (scripts/src/llm/verifier.ts)\<close>

record verificationItem =
  vjsonPath :: string
  valid :: bool
  comment :: string
  adjustedConfidence :: "jsnum option"

text \<open>What is sent to the reasoning service for one fact, and one batch of it.\<close>

record anchorPayload =
  apath :: string
  alines :: string
  anchorId :: string

record factPayload =
  pjsonPath :: string
  pvalue :: "json option"
  panchors :: "anchorPayload list"

record batch =
  bfacts :: "factPayload list"
  bsnippets :: "(string \<times> string) list"

text \<open>
  The surroundings of the pass: the snippets that \<open>collectSnippets\<close> read from the
  repository's files (by anchor id), the length of \<open>JSON.stringify\<close> of a payload, and the
  reasoning service, which answers a batch with the verifications parsed from its reply
  (none when the reply does not parse).
\<close>

record verifierIO =
  snippets :: "string \<Rightarrow> string option"
  stringifyLength :: "factPayload \<Rightarrow> nat"
  respond :: "batch \<Rightarrow> verificationItem list"

record verifierResult =
  facts :: "fact list"
  verifications :: "verificationItem list"
  calls :: "batch list"

text \<open>\<open>estimateTokens\<close>: \<open>Math.ceil(text.length / 2.5)\<close>.\<close>

definition estimateTokens :: "nat \<Rightarrow> nat" where
  "estimateTokens len = (2 * len + 4) div 5"

definition getAnchorId :: "env \<Rightarrow> anchor \<Rightarrow> string" where
  "getAnchorId E a = path a @ '':'' @ numToString E (startLine a) @ ''-'' @ numToString E (endLine a)"

text \<open>\<open>snippets[id] && snippets[id] !== "(Snippet unavailable)"\<close>.\<close>

definition snippetAvailable :: "(string \<Rightarrow> string option) \<Rightarrow> string \<Rightarrow> bool" where
  "snippetAvailable sn i =
     (case sn i of None \<Rightarrow> False | Some s \<Rightarrow> s \<noteq> [] \<and> s \<noteq> ''(Snippet unavailable)'')"

definition MAX_ANCHORS_PER_FACT :: nat where
  "MAX_ANCHORS_PER_FACT = 3"

text \<open>
  The loop that separates the facts to send from the facts verified without the service:
  the state is the pair of \<open>factsWithSnippets\<close> and \<open>preInvalidatedVerifications\<close>.
\<close>

definition preValidate ::
  "env \<Rightarrow> (string \<Rightarrow> string option) \<Rightarrow> fact list \<times> verificationItem list \<Rightarrow> fact
     \<Rightarrow> fact list \<times> verificationItem list" where
  "preValidate E sn st f =
     (let validAnchors = filter (\<lambda>a. snippetAvailable sn (getAnchorId E a)) (repoSources f)
      in if validAnchors \<noteq> [] then
           (if length validAnchors > MAX_ANCHORS_PER_FACT
            then (fst st @ [f\<lparr>repoSources := take MAX_ANCHORS_PER_FACT validAnchors\<rparr>], snd st)
            else (fst st @ [f], snd st))
         else (fst st,
               snd st @ [\<lparr> vjsonPath = jsonPath f, valid = False,
                           comment = ''Source snippet unavailable or file not found.'',
                           adjustedConfidence = Some (Fin (1/2)) \<rparr>]))"

definition toPayload :: "env \<Rightarrow> fact \<Rightarrow> factPayload" where
  "toPayload E f =
     \<lparr> pjsonPath = jsonPath f,
       pvalue = proposedValue f,
       panchors = map (\<lambda>a. \<lparr> apath = path a,
                               alines = numToString E (startLine a) @ ''-'' @ numToString E (endLine a),
                               anchorId = getAnchorId E a \<rparr>) (repoSources f) \<rparr>"

definition MAX_BATCH_TOKENS :: nat where
  "MAX_BATCH_TOKENS = 5000"

text \<open>The state of the batching loop.\<close>

record batching =
  batches :: "batch list"
  currentBatchFacts :: "factPayload list"
  currentBatchSnippets :: "(string \<times> string) list"
  currentTokens :: nat

text \<open>A snippet of the current batch counts as present when it is a non-empty string.\<close>

definition inBatch :: "(string \<times> string) list \<Rightarrow> string \<Rightarrow> bool" where
  "inBatch m i = (case mapGet m i of None \<Rightarrow> False | Some s \<Rightarrow> s \<noteq> [])"

definition snippetContent :: "(string \<Rightarrow> string option) \<Rightarrow> string \<Rightarrow> string" where
  "snippetContent sn i = orElse (sn i) ''(Snippet unavailable)''"

definition addToBatch :: "verifierIO \<Rightarrow> batching \<Rightarrow> factPayload \<Rightarrow> batching" where
  "addToBatch io st item =
     (let fresh = filter (\<lambda>a. \<not> inBatch (currentBatchSnippets st) (anchorId a)) (panchors item);
          itemTokens = estimateTokens (stringifyLength io item)
            + sum_list (map (\<lambda>a. estimateTokens (length (snippetContent (snippets io) (anchorId a)))) fresh);
          newSnippets = foldl (\<lambda>m a. mapSet (anchorId a) (snippetContent (snippets io) (anchorId a)) m) [] fresh;
          st1 = (if currentTokens st + itemTokens > MAX_BATCH_TOKENS \<and> currentBatchFacts st \<noteq> []
                 then st\<lparr> batches := batches st @ [\<lparr> bfacts = currentBatchFacts st,
                                                      bsnippets = currentBatchSnippets st \<rparr>],
                          currentBatchFacts := [], currentBatchSnippets := [], currentTokens := 0 \<rparr>
                 else st)
      in st1\<lparr> currentBatchFacts := currentBatchFacts st1 @ [item],
              currentBatchSnippets := foldl (\<lambda>m (k, v). mapSet k v m) (currentBatchSnippets st1) newSnippets,
              currentTokens := currentTokens st1 + itemTokens \<rparr>)"

definition makeBatches :: "verifierIO \<Rightarrow> factPayload list \<Rightarrow> batch list" where
  "makeBatches io items =
     (let st = foldl (addToBatch io)
                 \<lparr> batches = [], currentBatchFacts = [], currentBatchSnippets = [], currentTokens = 0 \<rparr>
                 items
      in if currentBatchFacts st \<noteq> []
         then batches st @ [\<lparr> bfacts = currentBatchFacts st, bsnippets = currentBatchSnippets st \<rparr>]
         else batches st)"

text \<open>\<open>/\b(invalid|incorrect|hallucination|wrong)\b/i\<close>, tested on the comment.\<close>

definition isWordChar :: "char \<Rightarrow> bool" where
  "isWordChar c = (c \<in> set ''abcdefghijklmnopqrstuvwxyzABCDEFGHIJKLMNOPQRSTUVWXYZ0123456789_'')"

definition toLowerChar :: "char \<Rightarrow> char" where
  "toLowerChar c =
     (case map_of (zip ''ABCDEFGHIJKLMNOPQRSTUVWXYZ'' ''abcdefghijklmnopqrstuvwxyz'') c of
        Some l \<Rightarrow> l | None \<Rightarrow> c)"

definition INVALID_KEYWORDS :: "string list" where
  "INVALID_KEYWORDS = [''invalid'', ''incorrect'', ''hallucination'', ''wrong'']"

text \<open>A keyword stands at the head of \<open>s\<close>, between two word boundaries; \<open>prev\<close> is the
  character before \<open>s\<close>, if any.\<close>

definition keywordAt :: "char option \<Rightarrow> string \<Rightarrow> string \<Rightarrow> bool" where
  "keywordAt prev s kw =
     ((case prev of None \<Rightarrow> True | Some c \<Rightarrow> \<not> isWordChar c)
      \<and> length kw \<le> length s
      \<and> map toLowerChar (take (length kw) s) = kw
      \<and> (case drop (length kw) s of [] \<Rightarrow> True | c # _ \<Rightarrow> \<not> isWordChar c))"

fun keywordFrom :: "char option \<Rightarrow> string \<Rightarrow> bool" where
  "keywordFrom prev [] = False"
| "keywordFrom prev (c # cs) =
     (list_ex (keywordAt prev (c # cs)) INVALID_KEYWORDS \<or> keywordFrom (Some c) cs)"

definition isCommentInvalid :: "string \<Rightarrow> bool" where
  "isCommentInvalid s = keywordFrom None s"

text \<open>What the pass does to a fact for which a verification was found.\<close>

definition applyVerification :: "jsnum \<Rightarrow> fact \<Rightarrow> verificationItem \<Rightarrow> fact" where
  "applyVerification minConfidence f v =
     (let c = (case adjustedConfidence v of
                 None \<Rightarrow> confidence f
               | Some a \<Rightarrow> if js_lt a (confidence f) then a else confidence f);
          clone = f\<lparr>confidence := c\<rparr>;
          commentInvalid = isCommentInvalid (comment v);
          isLowConfidence = js_lt c (Fin (2/10));
          isInferred = (sourceKind f = inferred);
          isValid = ((valid v \<or> (isInferred \<and> \<not> commentInvalid)) \<and> \<not> commentInvalid \<and> \<not> isLowConfidence)
      in if \<not> isValid
         then clone\<lparr> gate := (if js_lt c minConfidence then Require else Warn),
                     verifierNotes := Some (comment v) \<rparr>
         else clone)"

definition verifyFact :: "jsnum \<Rightarrow> verificationItem list \<Rightarrow> fact \<Rightarrow> fact" where
  "verifyFact minConfidence allVerifications f =
     (case find (\<lambda>v. vjsonPath v = jsonPath f) allVerifications of
        None \<Rightarrow> f
      | Some v \<Rightarrow> applyVerification minConfidence f v)"

text \<open>\<open>runVerifierPass\<close>: the facts it returns, the verifications it used and the
  batches it sent to the reasoning service.\<close>

definition runVerifierPass :: "env \<Rightarrow> verifierIO \<Rightarrow> jsnum \<Rightarrow> fact list \<Rightarrow> verifierResult" where
  "runVerifierPass E io minConfidence reasonerFacts =
     (let factsToVerify = filter (\<lambda>f. repoSources f \<noteq> []) reasonerFacts
      in if factsToVerify = []
         then \<lparr> facts = reasonerFacts, verifications = [], calls = [] \<rparr>
         else
           (let st = foldl (preValidate E (snippets io)) ([], []) factsToVerify;
                factsWithSnippets = fst st;
                preInvalidatedVerifications = snd st;
                sent = makeBatches io (map (toPayload E) factsWithSnippets);
                allVerifications = preInvalidatedVerifications @ concat (map (respond io) sent)
            in \<lparr> facts = map (verifyFact minConfidence allVerifications) reasonerFacts,
                 verifications = allVerifications,
                 calls = sent \<rparr>))"

section \<open>The facts of a proposal (scripts/src/actions/generate.ts)\<close>

definition maxFacts :: nat where
  "maxFacts = 1000"

text \<open>
  \<open>finalFacts\<close>: the facts that \<open>main\<close> puts into the proposal. The extractor merges the
  candidates of its last attempt into the deterministic facts and keeps at most
  \<open>maxFacts\<close> of them; the reasoner reconciles the patches of its last attempt with the
  result; the verifier has the last word.
\<close>

definition finalFacts ::
  "env \<Rightarrow> verifierIO \<Rightarrow> jsnum \<Rightarrow> rawFact list \<Rightarrow> rawFact list \<Rightarrow> string \<Rightarrow> fact list \<Rightarrow> fact list" where
  "finalFacts E io minConfidence rawFacts patches headSha deterministicFacts =
     facts (runVerifierPass E io minConfidence
       (reconcileFacts E (take maxFacts (mergeFacts E rawFacts deterministicFacts headSha)) patches headSha))"

section \<open>JSON pointers and property access\<close>

text \<open>\<open>String.prototype.split\<close> on a one-character separator.\<close>

fun splitOn :: "char \<Rightarrow> string \<Rightarrow> string list" where
  "splitOn c [] = [[]]"
| "splitOn c (x # xs) =
     (if x = c then [] # splitOn c xs
      else (case splitOn c xs of h # t \<Rightarrow> (x # h) # t | [] \<Rightarrow> [[x]]))"

text \<open>\<open>.replace(/~1/g, "/").replace(/~0/g, "~")\<close>: each pass replaces a two-character
  pattern from left to right.\<close>

fun replaceTilde :: "char \<Rightarrow> char \<Rightarrow> string \<Rightarrow> string" where
  "replaceTilde d r (a # b # s) =
     (if a = CHR ''~'' \<and> b = d then r # replaceTilde d r s else a # replaceTilde d r (b # s))"
| "replaceTilde d r s = s"

definition unescapeToken :: "string \<Rightarrow> string" where
  "unescapeToken s = replaceTilde (CHR ''0'') (CHR ''~'') (replaceTilde (CHR ''1'') (CHR ''/'') s)"

text \<open>\<open>pointer.split("/").slice(1).map(unescape)\<close>.\<close>

definition pointerTokens :: "string \<Rightarrow> string list" where
  "pointerTokens p = map unescapeToken (tl (splitOn (CHR ''/'') p))"

text \<open>\<open>/^[0-9]+$/\<close> (also written \<open>/^\d+$/\<close>).\<close>

definition isDigits :: "string \<Rightarrow> bool" where
  "isDigits s = (s \<noteq> [] \<and> list_all isDigit s)"

definition digitValue :: "char \<Rightarrow> nat" where
  "digitValue c = (case map_of (zip ''0123456789'' [0, 1, 2, 3, 4, 5, 6, 7, 8, 9]) c of Some n \<Rightarrow> n | None \<Rightarrow> 0)"

text \<open>An array index written canonically: digits with no leading zero, below \<open>2^32 - 1\<close>.\<close>

definition parseIndex :: "string \<Rightarrow> nat option" where
  "parseIndex s =
     (if isDigits s \<and> (s = ''0'' \<or> hd s \<noteq> CHR ''0'')
         \<and> foldl (\<lambda>n c. 10 * n + digitValue c) 0 s < 4294967295
      then Some (foldl (\<lambda>n c. 10 * n + digitValue c) 0 s) else None)"

text \<open>
  Setting a property of an object. A property that exists keeps its place; a new one
  whose key is an array index goes among the index keys, which an object enumerates
  first and in ascending order; any other new key goes last.
\<close>

fun objInsertIndex :: "nat \<Rightarrow> string \<Rightarrow> json \<Rightarrow> (string \<times> json) list \<Rightarrow> (string \<times> json) list" where
  "objInsertIndex i k v [] = [(k, v)]"
| "objInsertIndex i k v ((k', v') # m) =
     (case parseIndex k' of
        Some j \<Rightarrow> if j < i then (k', v') # objInsertIndex i k v m else (k, v) # (k', v') # m
      | None \<Rightarrow> (k, v) # (k', v') # m)"

definition objSet :: "string \<Rightarrow> json \<Rightarrow> (string \<times> json) list \<Rightarrow> (string \<times> json) list" where
  "objSet k v m =
     (if map_of m k \<noteq> None then mapSet k v m
      else (case parseIndex k of Some i \<Rightarrow> objInsertIndex i k v m | None \<Rightarrow> m @ [(k, v)]))"

text \<open>\<open>Object.fromEntries\<close>.\<close>

definition fromEntries :: "(string \<times> json) list \<Rightarrow> (string \<times> json) list" where
  "fromEntries es = foldl (\<lambda>m (k, v). objSet k v m) [] es"

text \<open>\<open>JSON.parse(JSON.stringify(value))\<close>: a number that is not finite becomes \<open>null\<close>.\<close>

fun deepClone :: "json \<Rightarrow> json" where
  "deepClone (JNum n) = (if isFinite n then JNum n else JNull)"
| "deepClone (JArr xs) = JArr (map deepClone xs)"
| "deepClone (JObj kvs) = JObj (map (\<lambda>(k, v). (k, deepClone v)) kvs)"
| "deepClone v = v"

text \<open>
  \<open>value[key]\<close> for the keys the code reads: an own property of an object, an element of
  an array, a character of a string; \<open>None\<close> is \<open>undefined\<close>. Inherited properties
  and \<open>length\<close> are left out: no key the code reads with this function names one.
\<close>

fun getProp :: "json \<Rightarrow> string \<Rightarrow> json option" where
  "getProp (JObj kvs) k = map_of kvs k"
| "getProp (JArr xs) k =
     (case parseIndex k of Some i \<Rightarrow> if i < length xs then Some (xs ! i) else None | None \<Rightarrow> None)"
| "getProp (JStr s) k =
     (case parseIndex k of Some i \<Rightarrow> if i < length s then Some (JStr [s ! i]) else None | None \<Rightarrow> None)"
| "getProp _ k = None"

text \<open>\<open>getValueAtPointer\<close>: the walk stops with \<open>undefined\<close> at \<open>null\<close> or \<open>undefined\<close>.\<close>

fun walk :: "json option \<Rightarrow> string list \<Rightarrow> json option" where
  "walk cursor [] = cursor"
| "walk None (t # ts) = None"
| "walk (Some JNull) (t # ts) = None"
| "walk (Some v) (t # ts) = walk (getProp v t) ts"

definition getValueAtPointer :: "json \<Rightarrow> string \<Rightarrow> json option" where
  "getValueAtPointer target pointer = walk (Some target) (pointerTokens pointer)"

text \<open>
  \<open>cursor[token] = value\<close> in strict mode: it throws on \<open>null\<close> and on a primitive. On an
  array a canonical index writes an element (filling a gap with empty slots, which
  serialise as \<open>null\<close>); any other key adds a named property to the array object.
  The model does not keep such a property: no serialisation of the array shows it, and
  only a later read of that key or a spread of that array would.
\<close>

fun setProp :: "json \<Rightarrow> string \<Rightarrow> json \<Rightarrow> jserror + json" where
  "setProp (JObj kvs) k v = Inr (JObj (objSet k v kvs))"
| "setProp (JArr xs) k v =
     (case parseIndex k of
        Some i \<Rightarrow>
          if i < length xs then Inr (JArr (xs[i := v]))
          else Inr (JArr (xs @ replicate (i - length xs) JNull @ [v]))
      | None \<Rightarrow> Inr (JArr xs))"
| "setProp _ k v = Inl TypeError"

fun isArray :: "json \<Rightarrow> bool" where
  "isArray (JArr _) = True"
| "isArray _ = False"

fun isObjectLike :: "json \<Rightarrow> bool" where
  "isObjectLike (JArr _) = True"
| "isObjectLike (JObj _) = True"
| "isObjectLike _ = False"

text \<open>
  \<open>applyJsonPointer\<close> (scripts/src/pipeline/deterministic.ts), on the tokens of the
  pointer. \<open>token in cursor\<close> throws when the cursor is not an object.
\<close>

fun applyJsonPointerTokens :: "json \<Rightarrow> string list \<Rightarrow> json \<Rightarrow> jserror + json" where
  "applyJsonPointerTokens cursor [] v = Inr cursor"
| "applyJsonPointerTokens cursor [t] v = setProp cursor t v"
| "applyJsonPointerTokens cursor (t # nextToken # rest) v =
     (if \<not> isObjectLike cursor then Inl TypeError
      else
        (let shouldBeArray = isDigits nextToken;
             child0 = (case getProp cursor t of
                         None \<Rightarrow> (if shouldBeArray then JArr [] else JObj [])
                       | Some c \<Rightarrow> c);
             child = (if shouldBeArray \<and> \<not> isArray child0 then JArr [] else child0)
         in case applyJsonPointerTokens child (nextToken # rest) v of
              Inl e \<Rightarrow> Inl e
            | Inr child' \<Rightarrow> setProp cursor t child'))"

definition applyJsonPointer :: "json \<Rightarrow> string \<Rightarrow> json \<Rightarrow> jserror + json" where
  "applyJsonPointer target pointer v = applyJsonPointerTokens target (pointerTokens pointer) v"

section \<open>The deterministic baseline (scripts/src/pipeline/deterministic.ts)\<close>

text \<open>\<open>Omit<Anchor, "commit">\<close>.\<close>

record draftAnchor =
  dpath :: string
  dstartLine :: jsnum
  dendLine :: jsnum
  dfingerprint :: "string option"
  dkind :: "string option"

record component =
  cname :: string
  csummary :: string
  ckeyFiles :: "string list"

text \<open>\<open>RepositoryInsights\<close>.\<close>

record insights =
  ctxRunId :: string
  ctxHeadSha :: string
  useCase :: string
  intendedUse :: string
  nonGoals :: "string list"
  outOfScopeUse :: "string list"
  repositoryUrl :: "string option"
  languages :: "string list"
  entrypoints :: "string list"
  components :: "component list"
  dependencyHighlights :: "string list"
  testsPresent :: bool
  coverageHint :: "string option"
  problemSummary :: string
  userPopulations :: "string list"
  dataFlow :: "string list"
  governancePolicies :: "string list"
  anchorMap :: "string \<Rightarrow> draftAnchor list option"

record draftFact =
  djsonPath :: string
  djsonPointer :: string
  dproposedValue :: json
  dcurrentValue :: "json option"
  danchors :: "draftAnchor list option"
  dconfidence :: jsnum
  dsourceKind :: sourceKind
  dgate :: "gate option"
  dverifierNotes :: "string option"

definition toFact :: "draftFact \<Rightarrow> string \<Rightarrow> fact" where
  "toFact draft headSha =
     \<lparr> jsonPath = djsonPath draft,
       jsonPointer = Some (djsonPointer draft),
       currentValue = dcurrentValue draft,
       proposedValue = Some (dproposedValue draft),
       sourceKind = dsourceKind draft,
       repoSources = map (\<lambda>a. \<lparr> path = dpath a, startLine = dstartLine a, endLine = dendLine a,
                                 commit = headSha, fingerprint = dfingerprint a, kind = dkind a \<rparr>)
                       (orElse (danchors draft) []),
       confidence = dconfidence draft,
       gate = (case dgate draft of
                 Some g \<Rightarrow> g
               | None \<Rightarrow> if js_ge (dconfidence draft) (Fin (8/10)) then OK
                         else if js_ge (dconfidence draft) (Fin (65/100)) then Warn
                         else Require),
       verifierNotes = dverifierNotes draft \<rparr>"

text \<open>\<open>fact.anchors && fact.anchors.length > 0\<close>.\<close>

definition hasAnchors :: "draftFact \<Rightarrow> bool" where
  "hasAnchors d = (case danchors d of None \<Rightarrow> False | Some as \<Rightarrow> as \<noteq> [])"

text \<open>
  \<open>addFact\<close>: the state is the mutated card and the facts pushed so far; an exception of
  \<open>applyJsonPointer\<close> ends the pipeline.
\<close>

definition addFact :: "string \<Rightarrow> jserror + json \<times> fact list \<Rightarrow> draftFact \<Rightarrow> jserror + json \<times> fact list" where
  "addFact headSha st draft =
     (case st of
        Inl e \<Rightarrow> Inl e
      | Inr (mutated, fs) \<Rightarrow>
          (case danchors draft of
             None \<Rightarrow> Inr (mutated, fs)
           | Some as \<Rightarrow>
               if as = [] then Inr (mutated, fs)
               else
                 (case applyJsonPointer mutated (djsonPointer draft) (dproposedValue draft) of
                    Inl e \<Rightarrow> Inl e
                  | Inr mutated' \<Rightarrow> Inr (mutated', fs @ [toFact draft headSha]))))"

definition strings :: "string list \<Rightarrow> json" where
  "strings xs = JArr (map JStr xs)"

definition componentJson :: "component \<Rightarrow> json" where
  "componentJson c =
     JObj [(''name'', JStr (cname c)), (''summary'', JStr (csummary c)), (''keyFiles'', strings (ckeyFiles c))]"

text \<open>One rule of the baseline: the draft it hands to \<open>addFact\<close>.\<close>

definition draft ::
  "json \<Rightarrow> string \<Rightarrow> string \<Rightarrow> json \<Rightarrow> draftAnchor list option \<Rightarrow> real \<Rightarrow> draftFact" where
  "draft baseline jpath pointer v as c =
     \<lparr> djsonPath = jpath, djsonPointer = pointer, dproposedValue = v,
       dcurrentValue = getValueAtPointer baseline pointer,
       danchors = as, dconfidence = Fin c, dsourceKind = extracted,
       dgate = None, dverifierNotes = None \<rparr>"

text \<open>
  The drafts handed to \<open>addFact\<close>, in the order of the calls; a rule under a condition
  that fails hands over nothing.
\<close>

definition baselineDrafts :: "json \<Rightarrow> insights \<Rightarrow> draftFact list" where
  "baselineDrafts baseline context =
     [draft baseline ''$.meta.title'' ''/meta/title''
        (JStr ''ML System Card (GitHub-native, PR-first)'')
        (anchorMap context ''README.md#title'') (95/100)]
     @ (case repositoryUrl context of
          None \<Rightarrow> []
        | Some url \<Rightarrow>
            if url = [] then []
            else [draft baseline ''$.meta.links.repo'' ''/meta/links/repo'' (JStr url)
                    (anchorMap context ''README.md#repo-link'') (9/10)])
     @ [draft baseline ''$.business.useCase'' ''/business/useCase'' (JStr (useCase context))
          (anchorMap context ''README.md#why'') (9/10),
        draft baseline ''$.business.intendedUse'' ''/business/intendedUse'' (JStr (intendedUse context))
          (anchorMap context ''README.md#scope'') (85/100)]
     @ (if nonGoals context \<noteq> []
        then [draft baseline ''$.business.nonGoals'' ''/business/nonGoals'' (strings (nonGoals context))
                (anchorMap context ''README.md#out-of-scope'') (85/100)]
        else [])
     @ (if outOfScopeUse context \<noteq> []
        then [draft baseline ''$.business.outOfScopeUse'' ''/business/outOfScopeUse''
                (strings (outOfScopeUse context))
                (anchorMap context ''README.md#out-of-scope'') (8/10)]
        else [])
     @ (if userPopulations context \<noteq> []
        then (let stakeholderAnchors =
                    orElse (anchorMap context ''README.md#stakeholders'') []
                    @ orElse (anchorMap context ''docs/stakeholders.yaml#titles'') []
              in [draft baseline ''$.business.userPopulations'' ''/business/userPopulations''
                    (strings (userPopulations context))
                    (if stakeholderAnchors \<noteq> [] then Some stakeholderAnchors else None) (8/10)])
        else [])
     @ [draft baseline ''$.devInsight.codeOverview.languages'' ''/devInsight/codeOverview/languages''
          (strings (languages context)) (anchorMap context ''CODE#languages'') (9/10),
        draft baseline ''$.devInsight.codeOverview.entrypoints'' ''/devInsight/codeOverview/entrypoints''
          (strings (entrypoints context)) (anchorMap context ''CODE#entrypoints'') (85/100)]
     @ (if components context \<noteq> []
        then [draft baseline ''$.devInsight.codeOverview.components'' ''/devInsight/codeOverview/components''
                (JArr (map componentJson (components context)))
                (anchorMap context ''CODE#components'') (8/10)]
        else [])
     @ (if dependencyHighlights context \<noteq> []
        then [draft baseline ''$.devInsight.architecture.depsSummary'' ''/devInsight/architecture/depsSummary''
                (strings (dependencyHighlights context)) (anchorMap context ''CODE#deps'') (85/100)]
        else [])
     @ (if dataFlow context \<noteq> []
        then [draft baseline ''$.devInsight.architecture.dataFlow'' ''/devInsight/architecture/dataFlow''
                (strings (dataFlow context)) (anchorMap context ''README.md#workflow'') (75/100)]
        else [])
     @ [draft baseline ''$.devInsight.qualitySignals.testsPresent'' ''/devInsight/qualitySignals/testsPresent''
          (JBool (testsPresent context)) (anchorMap context ''README.md#commands'') (8/10)]
     @ (case coverageHint context of
          None \<Rightarrow> []
        | Some h \<Rightarrow>
            if h = [] then []
            else [draft baseline ''$.devInsight.qualitySignals.coverageHint''
                    ''/devInsight/qualitySignals/coverageHint'' (JStr h)
                    (anchorMap context ''README.md#commands'') (75/100)])
     @ [draft baseline ''$.mlCore.problem'' ''/mlCore/problem'' (JStr (problemSummary context))
          (anchorMap context ''README.md#why'') (85/100)]
     @ (if governancePolicies context \<noteq> []
        then [draft baseline ''$.governance.policies'' ''/governance/policies''
                (strings (governancePolicies context)) (anchorMap context ''README.md#auto-merge'') (75/100)]
        else [])"

text \<open>
  The properties copied by an object spread \<open>{...value}\<close>: the own properties of an
  object, the elements of an array under their indices, the characters of a string
  under theirs, and nothing for another value.
\<close>

fun showNat :: "nat \<Rightarrow> string" where
  "showNat n =
     (if n < 10 then [''0123456789'' ! n]
      else showNat (n div 10) @ [''0123456789'' ! (n mod 10)])"

declare showNat.simps [simp del]

fun spreadProps :: "json option \<Rightarrow> (string \<times> json) list" where
  "spreadProps (Some (JObj kvs)) = kvs"
| "spreadProps (Some (JArr xs)) = map (\<lambda>i. (showNat i, xs ! i)) [0..<length xs]"
| "spreadProps (Some (JStr s)) = map (\<lambda>i. (showNat i, JStr [s ! i])) [0..<length s]"
| "spreadProps _ = []"

text \<open>
  The confidence of the changelog fact, \<open>Math.min(0.95, 0.7 + Math.max(0, 5 - n) * 0.05)\<close>
  for \<open>n\<close> changed files (\<open>n > 0\<close>), as the double arithmetic gives it: the sums for
  \<open>n = 1\<close> and \<open>n = 3\<close> are the doubles just below 0.9 and 0.8.
\<close>

definition changelogConfidence :: "nat \<Rightarrow> real" where
  "changelogConfidence n =
     (if n = 1 then 2026619832316723 / 2251799813685248
      else if n = 2 then 85/100
      else if n = 3 then 7205759403792793 / 9007199254740992
      else if n = 4 then 3/4
      else 7/10)"

text \<open>
  \<open>buildChangelogFacts\<close> on a card other than \<open>null\<close>; \<open>now\<close> is the clock's reading
  (\<open>new Date()\<close>), in milliseconds.
\<close>

definition buildChangelogFacts ::
  "env \<Rightarrow> real \<Rightarrow> json \<Rightarrow> json \<Rightarrow> string list \<Rightarrow> insights \<Rightarrow> json \<times> fact list" where
  "buildChangelogFacts E now mutated baseline changedFiles context =
     (let provenance = getProp mutated ''provenance'';
          old = (case provenance of
                   None \<Rightarrow> None
                 | Some JNull \<Rightarrow> None
                 | Some p \<Rightarrow> getProp p ''changelog'');
          changelog = (case old of Some (JArr xs) \<Rightarrow> xs | _ \<Rightarrow> []);
          card = (\<lambda>cl. JObj (objSet ''provenance''
                   (JObj (objSet ''changelog'' (JArr cl)
                      (fromEntries (spreadProps (if nullish provenance then None else provenance)))))
                   (fromEntries (spreadProps (Some mutated)))))
      in if changedFiles = [] then (card changelog, [])
         else
           (let n = length changedFiles;
                entry = JObj
                  [(''date'', JStr (toISOString E now)),
                   (''summary'', JStr (''ML System Card run '' @ ctxRunId context @ '' observed ''
                        @ showNat n @ '' changed files'')),
                   (''files'', JArr (map (\<lambda>p. JObj [(''path'', JStr p)]) changedFiles)),
                   (''runId'', JStr (ctxRunId context)),
                   (''headSha'', JStr (ctxHeadSha context))];
                index = length changelog;
                c = Fin (changelogConfidence n);
                g = (if js_ge c (Fin (8/10)) then OK else if js_ge c (Fin (65/100)) then Warn else Require)
            in (card (changelog @ [entry]),
                [\<lparr> jsonPath = ''$.provenance.changelog['' @ showNat index @ '']'',
                   jsonPointer = Some (''/provenance/changelog/'' @ showNat index),
                   currentValue = getValueAtPointer baseline (''/provenance/changelog/'' @ showNat index),
                   proposedValue = Some entry,
                   sourceKind = extracted,
                   repoSources = map (\<lambda>p. \<lparr> path = p, startLine = Fin 1, endLine = Fin 1,
                                             commit = ctxHeadSha context, fingerprint = None, kind = None \<rparr>)
                                   changedFiles,
                   confidence = c,
                   gate = g,
                   verifierNotes = (if g = Warn then Some ''Review high-change volume'' else None) \<rparr>])))"

text \<open>
  \<open>buildFactsAndMutations\<close>: the mutated card and the facts, or the exception. On a card
  that is \<open>null\<close> the first read of \<open>buildChangelogFacts\<close>, \<open>mutated.provenance\<close>, throws
  a \<open>TypeError\<close>.
\<close>

definition buildFactsAndMutations ::
  "env \<Rightarrow> real \<Rightarrow> json \<Rightarrow> string list \<Rightarrow> insights \<Rightarrow> jserror + json \<times> fact list" where
  "buildFactsAndMutations E now baseline changedFiles context =
     (case foldl (addFact (ctxHeadSha context)) (Inr (deepClone baseline, [])) (baselineDrafts baseline context) of
        Inl e \<Rightarrow> Inl e
      | Inr (mutated, fs) \<Rightarrow>
          if mutated = JNull then Inl TypeError
          else
            (let cl = buildChangelogFacts E now mutated baseline changedFiles context
             in Inr (fst cl, fs @ snd cl)))"

section \<open>Numbers in the canonical form\<close>

definition SIGNIFICANT_DIGITS :: nat where
  "SIGNIFICANT_DIGITS = 3"

text \<open>
  The decimal value that \<open>x.toPrecision(p)\<close> denotes, for a finite \<open>x\<close> other than
  zero: \<open>x\<close> rounded to \<open>p\<close> significant decimal digits, a tie going away from zero.
\<close>

definition toPrecision :: "nat \<Rightarrow> real \<Rightarrow> real" where
  "toPrecision p x =
     (let e = \<lfloor>log 10 \<bar>x\<bar>\<rfloor>;
          s = 10 powr real_of_int (e - (int p - 1))
      in sgn x * real_of_int \<lfloor>\<bar>x\<bar> / s + 1/2\<rfloor> * s)"

text \<open>Rounding to an integer, a tie going to the even one.\<close>

definition roundHalfEven :: "real \<Rightarrow> int" where
  "roundHalfEven y =
     (let f = \<lfloor>y\<rfloor>
      in if y - real_of_int f < 1/2 then f
         else if y - real_of_int f > 1/2 then f + 1
         else if even f then f else f + 1)"

text \<open>
  \<open>Number.parseFloat\<close> on the text of a decimal value: the double nearest to the value
  (53 significant bits, exponents down to the subnormal range, a tie going to the even
  significand), and an infinity when that rounding leaves the range of the doubles.
\<close>

definition parseFloat :: "real \<Rightarrow> jsnum" where
  "parseFloat d =
     (if d = 0 then Fin 0
      else
        (let e = max \<lfloor>log 2 \<bar>d\<bar>\<rfloor> (- 1022);
             u = 2 powr real_of_int (e - 52);
             r = real_of_int (roundHalfEven (\<bar>d\<bar> / u)) * u
         in if r \<ge> 2 ^ 1024 then (if d > 0 then PInf else NInf)
            else Fin (sgn d * r)))"

text \<open>The number branch of \<open>normalizeCard\<close>, the same in both files.\<close>

definition normalizeNumber :: "jsnum \<Rightarrow> json" where
  "normalizeNumber n =
     (case n of
        Fin x \<Rightarrow> if x = 0 then JNum (Fin 0) else JNum (parseFloat (toPrecision SIGNIFICANT_DIGITS x))
      | _ \<Rightarrow> JNull)"

section \<open>Computing the rounding\<close>

text \<open>
  The floor of a logarithm and a power with an integer exponent, computed by repeated
  division and multiplication; the theorems below show that \<open>toPrecision\<close> and
  \<open>parseFloat\<close> can be evaluated with them.
\<close>

function ilog :: "nat \<Rightarrow> real \<Rightarrow> int" where
  "ilog b x =
     (if b < 2 \<or> x \<le> 0 then 0
      else if real b \<le> x then ilog b (x / real b) + 1
      else if x < 1 then ilog b (x * real b) - 1
      else 0)"
  by pat_completeness auto

termination ilog
proof (relation "measure (\<lambda>(b, x). if 1 \<le> x then nat \<lfloor>x\<rfloor> else b + nat \<lceil>1 / x\<rceil>)")
  show "wf (measure (\<lambda>(b, x). if 1 \<le> x then nat \<lfloor>x\<rfloor> else b + nat \<lceil>1 / x\<rceil>))"
    by simp
next
  fix b :: nat and x :: real
  assume a: "\<not> (b < 2 \<or> x \<le> 0)" "real b \<le> x"
  then have x2: "2 \<le> x" "1 \<le> x" "1 \<le> x / real b"
    by (simp_all add: field_simps)
  have "x / real b \<le> x / 2"
    using a x2 by (intro divide_left_mono) simp_all
  then have "\<lfloor>x / real b\<rfloor> \<le> \<lfloor>x / 2\<rfloor>"
    by (rule floor_mono)
  moreover have "\<lfloor>x / 2\<rfloor> < \<lfloor>x\<rfloor>"
  proof -
    have "x / 2 \<le> x - 1" using x2 by simp
    then have "\<lfloor>x / 2\<rfloor> \<le> \<lfloor>x - 1\<rfloor>" by (rule floor_mono)
    then show ?thesis by simp
  qed
  moreover have "0 < \<lfloor>x\<rfloor>" using x2 by simp
  ultimately have "nat \<lfloor>x / real b\<rfloor> < nat \<lfloor>x\<rfloor>" by linarith
  with x2 show "((b, x / real b), b, x)
      \<in> measure (\<lambda>(b, x). if 1 \<le> x then nat \<lfloor>x\<rfloor> else b + nat \<lceil>1 / x\<rceil>)"
    by simp
next
  fix b :: nat and x :: real
  assume a: "\<not> (b < 2 \<or> x \<le> 0)" "\<not> real b \<le> x" "x < 1"
  show "((b, x * real b), b, x)
      \<in> measure (\<lambda>(b, x). if 1 \<le> x then nat \<lfloor>x\<rfloor> else b + nat \<lceil>1 / x\<rceil>)"
  proof (cases "1 \<le> x * real b")
    case True
    have "x * real b < real b"
      using a by simp
    then have "\<lfloor>x * real b\<rfloor> < int b"
      by (simp add: floor_less_iff)
    then have "nat \<lfloor>x * real b\<rfloor> < b"
      using True by (simp add: nat_less_iff)
    with True a show ?thesis
      by simp
  next
    case False
    define y where "y = 1 / x"
    have x: "0 < x" using a by simp
    have y: "2 < y"
    proof -
      have "x * 2 \<le> x * real b" using a x by simp
      with False have "x * 2 < 1" by linarith
      then show ?thesis using x by (simp add: y_def field_simps)
    qed
    have "1 / (x * real b) = y / real b"
      by (simp add: y_def)
    also have "\<dots> \<le> y / 2"
      using a y by (intro divide_left_mono) simp_all
    finally have "\<lceil>1 / (x * real b)\<rceil> \<le> \<lceil>y / 2\<rceil>"
      by (rule ceiling_mono)
    moreover have "\<lceil>y / 2\<rceil> < \<lceil>y\<rceil>"
    proof -
      have "y / 2 \<le> y - 1" using y by simp
      then have "\<lceil>y / 2\<rceil> \<le> \<lceil>y - 1\<rceil>" by (rule ceiling_mono)
      then show ?thesis by simp
    qed
    moreover have "0 < \<lceil>1 / x\<rceil>"
      using x by simp
    ultimately have "nat \<lceil>1 / (x * real b)\<rceil> < nat \<lceil>1 / x\<rceil>"
      by (simp add: y_def)
    with False a show ?thesis
      by simp
  qed
qed

declare ilog.simps [simp del]

definition powInt :: "nat \<Rightarrow> int \<Rightarrow> real" where
  "powInt b k = (if 0 \<le> k then real b ^ nat k else 1 / real b ^ nat (- k))"

section \<open>Comparison functions\<close>

text \<open>Subtraction of numbers; only the sign and the zero of a finite difference are
  read, and they are those of the exact difference.\<close>

fun js_sub :: "jsnum \<Rightarrow> jsnum \<Rightarrow> jsnum" where
  "js_sub NaN _ = NaN"
| "js_sub _ NaN = NaN"
| "js_sub (Fin a) (Fin b) = Fin (a - b)"
| "js_sub (Fin _) PInf = NInf"
| "js_sub (Fin _) NInf = PInf"
| "js_sub PInf PInf = NaN"
| "js_sub PInf _ = PInf"
| "js_sub NInf NInf = NaN"
| "js_sub NInf _ = NInf"

text \<open>A number is falsy when it is zero or NaN.\<close>

definition truthy :: "jsnum \<Rightarrow> bool" where
  "truthy n = (n \<noteq> NaN \<and> n \<noteq> Fin 0)"

text \<open>\<open>a || b\<close> on two comparisons, the second evaluated only when the first is falsy.\<close>

definition orElseCompare :: "jserror + jsnum \<Rightarrow> jserror + jsnum \<Rightarrow> jserror + jsnum" where
  "orElseCompare a b = (case a of Inl e \<Rightarrow> Inl e | Inr v \<Rightarrow> if truthy v then Inr v else b)"

text \<open>\<open>if (a !== 0) return a; return b\<close>: NaN is returned.\<close>

definition unlessZero :: "jserror + jsnum \<Rightarrow> jserror + jsnum \<Rightarrow> jserror + jsnum" where
  "unlessZero a b = (case a of Inl e \<Rightarrow> Inl e | Inr v \<Rightarrow> if v \<noteq> Fin 0 then Inr v else b)"

text \<open>
  What \<open>value[key]\<close> gives for the keys the comparison functions read (\<open>path\<close>, \<open>name\<close>,
  \<open>likelihood\<close>, \<open>impact\<close>, \<open>item\<close>, \<open>timestamp\<close>, \<open>label\<close>, \<open>slice\<close>, \<open>metric\<close>,
  \<open>category\<close>, \<open>evaluationProtocol\<close>, \<open>date\<close>), on a value other than \<open>null\<close>: an own
  property, an element, a character, and the inherited method \<open>slice\<close> of arrays and
  strings.
\<close>

datatype member = Undefined | Value json | NativeFunction string

fun getMember :: "json \<Rightarrow> string \<Rightarrow> member" where
  "getMember (JObj kvs) k = (case map_of kvs k of Some v \<Rightarrow> Value v | None \<Rightarrow> Undefined)"
| "getMember (JArr xs) k =
     (case parseIndex k of
        Some i \<Rightarrow> if i < length xs then Value (xs ! i) else Undefined
      | None \<Rightarrow> if k = ''slice'' then NativeFunction k else Undefined)"
| "getMember (JStr s) k =
     (case parseIndex k of
        Some i \<Rightarrow> if i < length s then Value (JStr [s ! i]) else Undefined
      | None \<Rightarrow> if k = ''slice'' then NativeFunction k else Undefined)"
| "getMember _ k = Undefined"

text \<open>
  \<open>String(value)\<close>. An array is the join of its elements, \<open>null\<close> giving the empty
  string; an object is \<open>[object Object]\<close>, and the conversion throws when the object has
  a property \<open>toString\<close> of its own, which is not a function.
\<close>

fun toStringJs :: "env \<Rightarrow> json \<Rightarrow> jserror + string"
  and joinJs :: "env \<Rightarrow> json list \<Rightarrow> jserror + string"
  and elementString :: "env \<Rightarrow> json \<Rightarrow> jserror + string" where
  "toStringJs E JNull = Inr ''null''"
| "toStringJs E (JBool b) = Inr (if b then ''true'' else ''false'')"
| "toStringJs E (JNum n) = Inr (numToString E n)"
| "toStringJs E (JStr s) = Inr s"
| "toStringJs E (JArr xs) = joinJs E xs"
| "toStringJs E (JObj kvs) =
     (if map_of kvs ''toString'' \<noteq> None then Inl TypeError else Inr ''[object Object]'')"
| "joinJs E [] = Inr []"
| "joinJs E [x] = elementString E x"
| "joinJs E (x # y # ys) =
     (case elementString E x of
        Inl e \<Rightarrow> Inl e
      | Inr s \<Rightarrow> (case joinJs E (y # ys) of Inl e \<Rightarrow> Inl e | Inr r \<Rightarrow> Inr (s @ '','' @ r)))"
| "elementString E JNull = Inr []"
| "elementString E (JBool b) = toStringJs E (JBool b)"
| "elementString E (JNum n) = toStringJs E (JNum n)"
| "elementString E (JStr s) = toStringJs E (JStr s)"
| "elementString E (JArr xs) = toStringJs E (JArr xs)"
| "elementString E (JObj kvs) = toStringJs E (JObj kvs)"

text \<open>\<open>Number(value)\<close>.\<close>

fun toNumberJs :: "env \<Rightarrow> json \<Rightarrow> jserror + jsnum" where
  "toNumberJs E JNull = Inr (Fin 0)"
| "toNumberJs E (JBool b) = Inr (Fin (if b then 1 else 0))"
| "toNumberJs E (JNum n) = Inr n"
| "toNumberJs E (JStr s) = Inr (strToNumber E s)"
| "toNumberJs E (JArr xs) =
     (case toStringJs E (JArr xs) of Inl e \<Rightarrow> Inl e | Inr s \<Rightarrow> Inr (strToNumber E s))"
| "toNumberJs E (JObj kvs) = (if map_of kvs ''toString'' \<noteq> None then Inl TypeError else Inr NaN)"

text \<open>\<open>String(m ?? "")\<close> and \<open>Number(m ?? Number.NEGATIVE_INFINITY)\<close>.\<close>

fun memberString :: "env \<Rightarrow> member \<Rightarrow> jserror + string" where
  "memberString E Undefined = Inr []"
| "memberString E (Value JNull) = Inr []"
| "memberString E (Value v) = toStringJs E v"
| "memberString E (NativeFunction f) = Inr (''function '' @ f @ ''() { [native code] }'')"

fun memberNumber :: "env \<Rightarrow> member \<Rightarrow> jserror + jsnum" where
  "memberNumber E Undefined = Inr NInf"
| "memberNumber E (Value JNull) = Inr NInf"
| "memberNumber E (Value v) = toNumberJs E v"
| "memberNumber E (NativeFunction f) = Inr NaN"

text \<open>The time of a parsed date, negative infinity standing for a date that does not parse.\<close>

definition timeOf :: "real option \<Rightarrow> jsnum" where
  "timeOf t = (case t of None \<Rightarrow> NInf | Some ms \<Rightarrow> Fin ms)"

subsection \<open>scripts/src/card/deterministic.ts\<close>

text \<open>\<open>a?.key\<close>.\<close>

fun opt :: "json \<Rightarrow> string \<Rightarrow> member" where
  "opt JNull k = Undefined"
| "opt v k = getMember v k"

definition compareString :: "env \<Rightarrow> member \<Rightarrow> member \<Rightarrow> jserror + jsnum" where
  "compareString E left right =
     (case memberString E left of
        Inl e \<Rightarrow> Inl e
      | Inr l \<Rightarrow>
          (case memberString E right of
             Inl e \<Rightarrow> Inl e
           | Inr r \<Rightarrow> Inr (Fin (real_of_int (localeCompareBase E l r)))))"

definition compareNumber :: "env \<Rightarrow> member \<Rightarrow> member \<Rightarrow> jserror + jsnum" where
  "compareNumber E left right =
     (case memberNumber E left of
        Inl e \<Rightarrow> Inl e
      | Inr l \<Rightarrow> (case memberNumber E right of Inl e \<Rightarrow> Inl e | Inr r \<Rightarrow> Inr (js_sub l r)))"

definition compareDate :: "env \<Rightarrow> member \<Rightarrow> member \<Rightarrow> jserror + jsnum" where
  "compareDate E left right =
     (case memberString E left of
        Inl e \<Rightarrow> Inl e
      | Inr l \<Rightarrow>
          (case memberString E right of
             Inl e \<Rightarrow> Inl e
           | Inr r \<Rightarrow> Inr (js_sub (timeOf (dateParse E l)) (timeOf (dateParse E r)))))"

text \<open>The table \<open>arraySorters\<close>, by path.\<close>

definition arraySorters :: "env \<Rightarrow> string \<Rightarrow> sorterLookup" where
  "arraySorters E pathKey =
     (if pathKey = ''ai.fieldMeta'' then
        Sorter (\<lambda>a b. compareString E (opt a ''path'') (opt b ''path''))
      else if pathKey = ''business.kpis'' then
        Sorter (\<lambda>a b. compareString E (opt a ''name'') (opt b ''name''))
      else if pathKey = ''governance.riskRegister'' then
        Sorter (\<lambda>a b.
          orElseCompare (compareNumber E (opt b ''likelihood'') (opt a ''likelihood''))
            (orElseCompare (compareNumber E (opt b ''impact'') (opt a ''impact''))
              (compareString E (opt a ''item'') (opt b ''item''))))
      else if pathKey = ''governance.signOffs'' then
        Sorter (\<lambda>a b. compareDate E (opt a ''timestamp'') (opt b ''timestamp''))
      else if pathKey = ''integration.operationalQualities'' then
        Sorter (\<lambda>a b. compareString E (opt a ''name'') (opt b ''name''))
      else if pathKey = ''integration.operationalQualities.targets'' then
        Sorter (\<lambda>a b. compareString E (opt a ''label'') (opt b ''label''))
      else if pathKey = ''integration.operationalQualities.measures'' then
        Sorter (\<lambda>a b. compareString E (opt a ''label'') (opt b ''label''))
      else if pathKey = ''mlCore.failureModes'' then
        Sorter (\<lambda>a b. compareString E (opt a ''name'') (opt b ''name''))
      else if pathKey = ''mlCore.metrics'' then
        Sorter (\<lambda>a b.
          orElseCompare (compareString E (opt a ''slice'') (opt b ''slice''))
            (compareString E (opt a ''metric'') (opt b ''metric'')))
      else if pathKey = ''mlCore.qualities'' then
        Sorter (\<lambda>a b.
          orElseCompare (compareString E (opt a ''category'') (opt b ''category''))
            (compareString E (opt a ''evaluationProtocol'') (opt b ''evaluationProtocol'')))
      else if pathKey = ''provenance.changelog'' then
        Sorter (\<lambda>a b. compareDate E (opt a ''date'') (opt b ''date''))
      else inheritedSorter E pathKey)"

subsection \<open>lib/card/deterministic.ts\<close>

text \<open>\<open>getNumber\<close> and \<open>getString\<close>.\<close>

definition getNumber :: "json \<Rightarrow> string \<Rightarrow> jsnum" where
  "getNumber v k =
     (if isObjectLike v then (case getMember v k of Value (JNum n) \<Rightarrow> n | _ \<Rightarrow> NInf) else NInf)"

definition getString :: "json \<Rightarrow> string \<Rightarrow> string" where
  "getString v k =
     (if isObjectLike v then (case getMember v k of Value (JStr s) \<Rightarrow> s | _ \<Rightarrow> []) else [])"

text \<open>\<open>compareNumber\<close> and \<open>compareString\<close> of the library file.\<close>

definition libCompareNumber :: "jsnum \<Rightarrow> jsnum \<Rightarrow> jserror + jsnum" where
  "libCompareNumber a b = Inr (js_sub a b)"

definition libCompareString :: "env \<Rightarrow> string \<Rightarrow> string \<Rightarrow> jserror + jsnum" where
  "libCompareString E a b = Inr (Fin (real_of_int (localeCompareBase E a b)))"

text \<open>\<open>(left as any)[key]\<close>: a \<open>TypeError\<close> on \<open>null\<close>.\<close>

fun index :: "json \<Rightarrow> string \<Rightarrow> jserror + member" where
  "index JNull k = Inl TypeError"
| "index v k = Inr (getMember v k)"

text \<open>\<open>parseDateComparator\<close>.\<close>

fun parseDateComparator :: "env \<Rightarrow> member \<Rightarrow> jsnum" where
  "parseDateComparator E (Value (JStr s)) = timeOf (dateParse E s)"
| "parseDateComparator E _ = NInf"

text \<open>\<open>compareUnknown\<close>.\<close>

fun compareUnknown :: "env \<Rightarrow> member \<Rightarrow> member \<Rightarrow> jserror + jsnum" where
  "compareUnknown E (Value (JNum a)) (Value (JNum b)) = libCompareNumber a b"
| "compareUnknown E l r =
     (case memberString E l of
        Inl e \<Rightarrow> Inl e
      | Inr ls \<Rightarrow> (case memberString E r of Inl e \<Rightarrow> Inl e | Inr rs \<Rightarrow> libCompareString E ls rs))"

text \<open>
  \<open>compareBy\<close> on one key in ascending direction, without a value mapper and with
  \<open>parseDateComparator\<close> as the mapper.
\<close>

definition compareBy :: "env \<Rightarrow> string \<Rightarrow> json \<Rightarrow> json \<Rightarrow> jserror + jsnum" where
  "compareBy E k left right =
     (case index left k of
        Inl e \<Rightarrow> Inl e
      | Inr l \<Rightarrow>
          (case index right k of
             Inl e \<Rightarrow> Inl e
           | Inr r \<Rightarrow> unlessZero (compareUnknown E l r) (Inr (Fin 0))))"

definition compareByDate :: "env \<Rightarrow> string \<Rightarrow> json \<Rightarrow> json \<Rightarrow> jserror + jsnum" where
  "compareByDate E k left right =
     (case index left k of
        Inl e \<Rightarrow> Inl e
      | Inr l \<Rightarrow>
          (case index right k of
             Inl e \<Rightarrow> Inl e
           | Inr r \<Rightarrow>
               unlessZero
                 (compareUnknown E (Value (JNum (parseDateComparator E l))) (Value (JNum (parseDateComparator E r))))
                 (Inr (Fin 0))))"

text \<open>The table \<open>ARRAY_SORTERS\<close>, by path.\<close>

definition ARRAY_SORTERS :: "env \<Rightarrow> string \<Rightarrow> sorterLookup" where
  "ARRAY_SORTERS E pathKey =
     (if pathKey = ''business.kpis'' then Sorter (compareBy E ''name'')
      else if pathKey = ''governance.riskRegister'' then
        Sorter (\<lambda>a b.
          unlessZero (libCompareNumber (getNumber b ''likelihood'') (getNumber a ''likelihood''))
            (unlessZero (libCompareNumber (getNumber b ''impact'') (getNumber a ''impact''))
              (libCompareString E (getString a ''item'') (getString b ''item''))))
      else if pathKey = ''governance.signOffs'' then Sorter (compareByDate E ''timestamp'')
      else if pathKey = ''mlCore.metrics'' then
        Sorter (\<lambda>a b.
          unlessZero (libCompareString E (getString a ''slice'') (getString b ''slice''))
            (libCompareString E (getString a ''metric'') (getString b ''metric'')))
      else if pathKey = ''mlCore.qualities'' then
        Sorter (\<lambda>a b.
          unlessZero (libCompareString E (getString a ''category'') (getString b ''category''))
            (libCompareString E (getString a ''evaluationProtocol'') (getString b ''evaluationProtocol'')))
      else if pathKey = ''mlCore.failureModes'' then
        Sorter (\<lambda>a b. libCompareString E (getString a ''name'') (getString b ''name''))
      else if pathKey = ''provenance.changelog'' then Sorter (compareByDate E ''date'')
      else if pathKey = ''integration.operationalQualities'' then
        Sorter (\<lambda>a b. libCompareString E (getString a ''name'') (getString b ''name''))
      else if pathKey = ''integration.operationalQualities.targets'' then
        Sorter (\<lambda>a b. libCompareString E (getString a ''label'') (getString b ''label''))
      else if pathKey = ''integration.operationalQualities.measures'' then
        Sorter (\<lambda>a b. libCompareString E (getString a ''label'') (getString b ''label''))
      else if pathKey = ''ai.fieldMeta'' then
        Sorter (\<lambda>a b. libCompareString E (getString a ''path'') (getString b ''path''))
      else inheritedSorter E pathKey)"

section \<open>The two canonicalizers\<close>

text \<open>
  \<open>Array.prototype.sort\<close> with a comparison function that may throw: the stable insertion
  sort of above, an exception of a comparison ending the sort.
\<close>

fun insortThrowing :: "('a \<Rightarrow> 'a \<Rightarrow> jserror + jsnum) \<Rightarrow> 'a \<Rightarrow> 'a list \<Rightarrow> jserror + 'a list" where
  "insortThrowing cmp x [] = Inr [x]"
| "insortThrowing cmp x (y # ys) =
     (case cmp y x of
        Inl e \<Rightarrow> Inl e
      | Inr v \<Rightarrow>
          if js_lt v (Fin 0)
          then (case insortThrowing cmp x ys of Inl e \<Rightarrow> Inl e | Inr r \<Rightarrow> Inr (y # r))
          else Inr (x # y # ys))"

fun sortThrowing :: "('a \<Rightarrow> 'a \<Rightarrow> jserror + jsnum) \<Rightarrow> 'a list \<Rightarrow> jserror + 'a list" where
  "sortThrowing cmp [] = Inr []"
| "sortThrowing cmp (x # xs) =
     (case sortThrowing cmp xs of Inl e \<Rightarrow> Inl e | Inr s \<Rightarrow> insortThrowing cmp x s)"

text \<open>\<open>[...normalized].sort(sorter)\<close> for what the table gave.\<close>

definition sortWith :: "sorterLookup \<Rightarrow> json list \<Rightarrow> jserror + json" where
  "sortWith sorter normalized =
     (case sorter of
        NoSorter \<Rightarrow> Inr (JArr normalized)
      | NotCallable \<Rightarrow> Inl TypeError
      | Sorter cmp \<Rightarrow> (case sortThrowing cmp normalized of Inl e \<Rightarrow> Inl e | Inr s \<Rightarrow> Inr (JArr s)))"

text \<open>\<open>path.join(".")\<close>.\<close>

fun joinDots :: "string list \<Rightarrow> string" where
  "joinDots [] = []"
| "joinDots [a] = a"
| "joinDots (a # b # r) = a @ ''.'' @ joinDots (b # r)"

text \<open>\<open>.sort(([a], [b]) => a.localeCompare(b))\<close> followed by \<open>Object.fromEntries\<close>.\<close>

definition sortedObject :: "env \<Rightarrow> (string \<times> json) list \<Rightarrow> json" where
  "sortedObject E entries =
     JObj (fromEntries (sort_by (\<lambda>a b. localeCompare E (fst a) (fst b) < 0) entries))"

text \<open>
  \<open>ISO_REGEX\<close> of the library file:
  \<open>/^(\d{4})-(\d{2})-(\d{2})[T ](\d{2}):(\d{2}):(\d{2})(?:\.(\d+))?Z?$/\<close>.
\<close>

definition isoTail :: "string \<Rightarrow> bool" where
  "isoTail r =
     (r = [] \<or> r = ''Z''
      \<or> (r \<noteq> [] \<and> hd r = CHR ''.'' \<and> takeWhile isDigit (tl r) \<noteq> []
           \<and> (dropWhile isDigit (tl r) = [] \<or> dropWhile isDigit (tl r) = ''Z'')))"

definition ISO_REGEX :: "string \<Rightarrow> bool" where
  "ISO_REGEX s =
     (19 \<le> length s
      \<and> list_all isDigit (take 4 s) \<and> s ! 4 = CHR ''-''
      \<and> list_all isDigit (take 2 (drop 5 s)) \<and> s ! 7 = CHR ''-''
      \<and> list_all isDigit (take 2 (drop 8 s)) \<and> (s ! 10 = CHR ''T'' \<or> s ! 10 = CHR '' '')
      \<and> list_all isDigit (take 2 (drop 11 s)) \<and> s ! 13 = CHR '':''
      \<and> list_all isDigit (take 2 (drop 14 s)) \<and> s ! 16 = CHR '':''
      \<and> list_all isDigit (take 2 (drop 17 s))
      \<and> isoTail (drop 19 s))"

text \<open>The string branch of the library file: \<open>new Date(input).toISOString()\<close> throws a
  \<open>RangeError\<close> when the date is invalid.\<close>

definition libString :: "env \<Rightarrow> string \<Rightarrow> jserror + json" where
  "libString E s =
     (if ISO_REGEX s
      then (case dateParse E s of None \<Rightarrow> Inl RangeError | Some t \<Rightarrow> Inr (JStr (toISOString E t)))
      else Inr (JStr s))"

text \<open>The string branch of the scripts file:
  \<open>!Number.isNaN(parsed) && value.toUpperCase().includes("T")\<close>.\<close>

definition scriptsString :: "env \<Rightarrow> string \<Rightarrow> json" where
  "scriptsString E s =
     (case dateParse E s of
        None \<Rightarrow> JStr s
      | Some t \<Rightarrow> if CHR ''T'' \<in> set s \<or> CHR ''t'' \<in> set s then JStr (toISOString E t) else JStr s)"

text \<open>\<open>normalizeCard\<close> of lib/card/deterministic.ts; \<open>libItems\<close> is the \<open>map\<close> over an
  array from index \<open>i\<close> on, \<open>libEntries\<close> the \<open>map\<close> over the entries of an object.\<close>

function (sequential) libNormalizeCard :: "env \<Rightarrow> json \<Rightarrow> string list \<Rightarrow> jserror + json"
  and libItems :: "env \<Rightarrow> json list \<Rightarrow> string list \<Rightarrow> nat \<Rightarrow> jserror + json list"
  and libEntries :: "env \<Rightarrow> (string \<times> json) list \<Rightarrow> string list \<Rightarrow> jserror + (string \<times> json) list" where
  "libNormalizeCard E (JArr xs) basePath =
     (case libItems E xs basePath 0 of
        Inl e \<Rightarrow> Inl e
      | Inr normalized \<Rightarrow> sortWith (ARRAY_SORTERS E (joinDots basePath)) normalized)"
| "libNormalizeCard E (JObj kvs) basePath =
     (case libEntries E kvs basePath of
        Inl e \<Rightarrow> Inl e
      | Inr entries \<Rightarrow> Inr (sortedObject E entries))"
| "libNormalizeCard E (JNum n) basePath = Inr (normalizeNumber n)"
| "libNormalizeCard E (JStr s) basePath = libString E s"
| "libNormalizeCard E JNull basePath = Inr JNull"
| "libNormalizeCard E (JBool b) basePath = Inr (JBool b)"
| "libItems E [] basePath i = Inr []"
| "libItems E (x # xs) basePath i =
     (case libNormalizeCard E x (basePath @ [showNat i]) of
        Inl e \<Rightarrow> Inl e
      | Inr y \<Rightarrow> (case libItems E xs basePath (Suc i) of Inl e \<Rightarrow> Inl e | Inr ys \<Rightarrow> Inr (y # ys)))"
| "libEntries E [] basePath = Inr []"
| "libEntries E ((k, v) # kvs) basePath =
     (case libNormalizeCard E v (basePath @ [k]) of
        Inl e \<Rightarrow> Inl e
      | Inr y \<Rightarrow> (case libEntries E kvs basePath of Inl e \<Rightarrow> Inl e | Inr ys \<Rightarrow> Inr ((k, y) # ys)))"
  by pat_completeness auto

termination libNormalizeCard
  by (relation "measure (\<lambda>x. case x of
        Inl (E, v, p) \<Rightarrow> size v
      | Inr (Inl (E, xs, p, i)) \<Rightarrow> size_list size xs
      | Inr (Inr (E, kvs, p)) \<Rightarrow> size_list (size_prod (\<lambda>k. 0) size) kvs)") auto

text \<open>\<open>normalizeCard\<close> of scripts/src/card/deterministic.ts.\<close>

function (sequential) normalizeCard :: "env \<Rightarrow> json \<Rightarrow> string list \<Rightarrow> jserror + json"
  and normalizeItems :: "env \<Rightarrow> json list \<Rightarrow> string list \<Rightarrow> nat \<Rightarrow> jserror + json list"
  and normalizeEntries :: "env \<Rightarrow> (string \<times> json) list \<Rightarrow> string list \<Rightarrow> jserror + (string \<times> json) list" where
  "normalizeCard E (JArr xs) segments =
     (case normalizeItems E xs segments 0 of
        Inl e \<Rightarrow> Inl e
      | Inr normalized \<Rightarrow> sortWith (arraySorters E (joinDots segments)) normalized)"
| "normalizeCard E (JObj kvs) segments =
     (case normalizeEntries E kvs segments of
        Inl e \<Rightarrow> Inl e
      | Inr entries \<Rightarrow> Inr (sortedObject E entries))"
| "normalizeCard E (JNum n) segments = Inr (normalizeNumber n)"
| "normalizeCard E (JStr s) segments = Inr (scriptsString E s)"
| "normalizeCard E JNull segments = Inr JNull"
| "normalizeCard E (JBool b) segments = Inr (JBool b)"
| "normalizeItems E [] segments i = Inr []"
| "normalizeItems E (x # xs) segments i =
     (case normalizeCard E x (segments @ [showNat i]) of
        Inl e \<Rightarrow> Inl e
      | Inr y \<Rightarrow> (case normalizeItems E xs segments (Suc i) of Inl e \<Rightarrow> Inl e | Inr ys \<Rightarrow> Inr (y # ys)))"
| "normalizeEntries E [] segments = Inr []"
| "normalizeEntries E ((k, v) # kvs) segments =
     (case normalizeCard E v (segments @ [k]) of
        Inl e \<Rightarrow> Inl e
      | Inr y \<Rightarrow> (case normalizeEntries E kvs segments of Inl e \<Rightarrow> Inl e | Inr ys \<Rightarrow> Inr ((k, y) # ys)))"
  by pat_completeness auto

termination normalizeCard
  by (relation "measure (\<lambda>x. case x of
        Inl (E, v, p) \<Rightarrow> size v
      | Inr (Inl (E, xs, p, i)) \<Rightarrow> size_list size xs
      | Inr (Inr (E, kvs, p)) \<Rightarrow> size_list (size_prod (\<lambda>k. 0) size) kvs)") auto

section \<open>Where the two canonicalizers agree\<close>










section \<open>JSON patches (the \<open>add\<close> operation of the patch library)\<close>

text \<open>
  The Apply Engine builds patches of \<open>add\<close> operations only. The value of an operation
  is \<open>None\<close> when the fact has no proposed value (\<open>undefined\<close>).
\<close>

datatype operation = Add string "json option"

text \<open>Whether a value is truthy.\<close>

fun truthyJson :: "json \<Rightarrow> bool" where
  "truthyJson JNull = False"
| "truthyJson (JBool b) = b"
| "truthyJson (JNum n) = truthy n"
| "truthyJson (JStr s) = (s \<noteq> [])"
| "truthyJson _ = True"

text \<open>\<open>delete object[key]\<close> on an object.\<close>

definition objDelete :: "string \<Rightarrow> (string \<times> json) list \<Rightarrow> (string \<times> json) list" where
  "objDelete k m = filter (\<lambda>e. fst e \<noteq> k) m"

text \<open>
  \<open>parseInt(key, 10)\<close>: white space, an optional sign and the longest run of digits;
  \<open>None\<close> is NaN.
\<close>

definition isWhiteSpace :: "char \<Rightarrow> bool" where
  "isWhiteSpace c = (of_char c \<in> {9, 10, 11, 12, 13, 32 :: nat})"

definition parseInt :: "string \<Rightarrow> int option" where
  "parseInt s =
     (let t = dropWhile isWhiteSpace s;
          negative = (t \<noteq> [] \<and> hd t = CHR ''-'');
          u = (if t \<noteq> [] \<and> (hd t = CHR ''-'' \<or> hd t = CHR ''+'') then tl t else t);
          ds = takeWhile isDigit u;
          n = int (foldl (\<lambda>n c. 10 * n + digitValue c) 0 ds)
      in if ds = [] then None else Some (if negative then - n else n))"

text \<open>\<open>array.splice(start, 0, value)\<close>: NaN counts as 0, a negative start counts from
  the end, and the start is clamped to the length.\<close>

definition spliceInsert :: "int option \<Rightarrow> 'a \<Rightarrow> 'a list \<Rightarrow> 'a list" where
  "spliceInsert start v xs =
     (let s = (case start of None \<Rightarrow> 0 | Some i \<Rightarrow> i);
          k = (if s < 0 then max (int (length xs) + s) 0 else min s (int (length xs)))
      in take (nat k) xs @ [v] @ drop (nat k) xs)"

text \<open>
  The outcome of one operation: an exception, a returned \<open>MissingError\<close>, or the new
  value of the node that was walked.
\<close>

datatype patched = Threw jserror | Missing | Done json

text \<open>
  \<open>_add(parent, key, value)\<close>: on an array \<open>-\<close> appends and any other key inserts at
  \<open>parseInt(key)\<close>; on an object the member is set. A member set to \<open>undefined\<close> is shown
  by no serialisation of the document, so the model removes it; \<open>undefined\<close> put into an
  array serialises as \<open>null\<close>. The key \<open>__proto__\<close> sets no property of the object. A
  parent that is \<open>undefined\<close> is a \<open>MissingError\<close>; \<open>null\<close> or a primitive throws a
  \<open>TypeError\<close>.
\<close>

fun addMember :: "json option \<Rightarrow> string \<Rightarrow> json option \<Rightarrow> patched" where
  "addMember None k v = Missing"
| "addMember (Some (JArr xs)) k v =
     (let item = (case v of None \<Rightarrow> JNull | Some x \<Rightarrow> x)
      in if k = ''-'' then Done (JArr (xs @ [item]))
         else Done (JArr (spliceInsert (parseInt k) item xs)))"
| "addMember (Some (JObj kvs)) k v =
     (if k = ''__proto__'' then Done (JObj kvs)
      else (case v of None \<Rightarrow> Done (JObj (objDelete k kvs)) | Some x \<Rightarrow> Done (JObj (objSet k x kvs))))"
| "addMember (Some _) k v = Threw TypeError"

text \<open>
  \<open>Pointer.evaluate\<close> followed by \<open>_add\<close>, on the tokens after the leading empty one. The
  walk reads \<open>(parent || {})[key]\<close> and skips the tokens \<open>__proto__\<close>, \<open>constructor\<close> and
  \<open>prototype\<close>; the operation mutates the parent in place, which the model writes as
  the rebuilding of the nodes on the way. With no token the parent is \<open>null\<close>.
\<close>

definition skippedToken :: "string \<Rightarrow> bool" where
  "skippedToken k = (k = ''__proto__'' \<or> k = ''constructor'' \<or> k = ''prototype'')"

fun addAt :: "json option \<Rightarrow> string list \<Rightarrow> json option \<Rightarrow> patched" where
  "addAt cursor [] v = Threw TypeError"
| "addAt cursor [k] v = addMember cursor k v"
| "addAt cursor (k # k' # ks) v =
     (if skippedToken k then addAt cursor (k' # ks) v
      else
        (case cursor of
           None \<Rightarrow> addAt None (k' # ks) v
         | Some c \<Rightarrow>
             if \<not> truthyJson c then addAt None (k' # ks) v
             else
               (case addAt (getProp c k) (k' # ks) v of
                  Done child \<Rightarrow>
                    (case c of
                       JObj kvs \<Rightarrow> Done (JObj (mapSet k child kvs))
                     | JArr xs \<Rightarrow>
                         (case parseIndex k of Some i \<Rightarrow> Done (JArr (xs[i := child])) | None \<Rightarrow> Done c)
                     | _ \<Rightarrow> Done c)
                | r \<Rightarrow> r)))"

text \<open>\<open>Pointer.fromJSON\<close>: the path is split on \<open>/\<close> and each token unescaped; a path that
  does not start with \<open>/\<close> and is not empty is refused with an exception.\<close>

definition applyOperation :: "json \<Rightarrow> operation \<Rightarrow> patched" where
  "applyOperation doc operation =
     (case operation of
        Add p v \<Rightarrow>
          (case splitOn (CHR ''/'') p of
             [] \<Rightarrow> Threw PatchError
           | t # ts \<Rightarrow> if t \<noteq> [] then Threw PatchError else addAt (Some doc) (map unescapeToken ts) v))"

text \<open>
  \<open>applyPatch(object, patch)\<close>: the operations in order, on the object as the earlier
  ones left it. The result is the exception of the first operation that throws, or the
  patched object with the number of operations that returned an error.
\<close>

fun applyPatch :: "json \<Rightarrow> operation list \<Rightarrow> jserror + json \<times> nat" where
  "applyPatch doc [] = Inr (doc, 0)"
| "applyPatch doc (operation # rest) =
     (case applyOperation doc operation of
        Threw e \<Rightarrow> Inl e
      | Missing \<Rightarrow> (case applyPatch doc rest of Inl e \<Rightarrow> Inl e | Inr (d, n) \<Rightarrow> Inr (d, Suc n))
      | Done doc' \<Rightarrow> applyPatch doc' rest)"

section \<open>The written card (scripts/src/write_card.ts)\<close>

text \<open>Comparison of strings by code units, the default order of \<open>Array.prototype.sort\<close>.\<close>

fun lexCompare :: "string \<Rightarrow> string \<Rightarrow> int" where
  "lexCompare [] [] = 0"
| "lexCompare [] (b # bs) = -1"
| "lexCompare (a # as) [] = 1"
| "lexCompare (a # as) (b # bs) =
     (if (of_char a :: nat) < of_char b then -1
      else if (of_char b :: nat) < of_char a then 1
      else lexCompare as bs)"

text \<open>
  A card file is identified with the document that \<open>load\<close> reads from it. What is read
  back from the text that \<open>stringifyDeterministic\<close> writes is the document with the keys
  of every object in the order of their code units (\<open>sortKeys: true\<close>).
\<close>

fun reloaded :: "json \<Rightarrow> json" where
  "reloaded (JArr xs) = JArr (map reloaded xs)"
| "reloaded (JObj kvs) =
     JObj (fromEntries (sort_by (\<lambda>a b. lexCompare (fst a) (fst b) < 0)
       (map (\<lambda>(k, v). (k, reloaded v)) kvs)))"
| "reloaded v = v"

text \<open>
  \<open>applyPatchAndWriteCard\<close>: the document of the new text, or the exception. \<open>oldYaml\<close>
  is the document of the old text, \<open>None\<close> for an empty text.
\<close>

definition applyPatchAndWriteCard :: "env \<Rightarrow> json option \<Rightarrow> operation list \<Rightarrow> jserror + json" where
  "applyPatchAndWriteCard E oldYaml patch =
     (let baseline = (case oldYaml of None \<Rightarrow> JObj [] | Some JNull \<Rightarrow> JObj [] | Some d \<Rightarrow> d)
      in case applyPatch (deepClone baseline) patch of
           Inl e \<Rightarrow> Inl e
         | Inr (target, errors) \<Rightarrow> if errors \<noteq> 0 then Inl PatchError else normalizeCard E target [])"

section \<open>The Apply Engine (scripts/src/actions/apply.ts)\<close>

datatype verdict = accept | reject | edit

text \<open>A decision; \<open>None\<close> stands for a field that is \<open>undefined\<close> (or, for the anchors,
  \<open>null\<close>).\<close>

record decision =
  decisionPath :: string
  decisionKind :: verdict
  editedValue :: "json option"
  decisionAnchors :: "anchor list option"
  lock :: "bool option"
  skipGeneration :: "bool option"

text \<open>\<open>String.prototype.includes\<close> and \<open>Array.prototype.join\<close>.\<close>

fun stringIncludes :: "string \<Rightarrow> string \<Rightarrow> bool" where
  "stringIncludes [] p = (p = [])"
| "stringIncludes (c # cs) p = (startsWith (c # cs) p \<or> stringIncludes cs p)"

fun joinWith :: "string \<Rightarrow> string list \<Rightarrow> string" where
  "joinWith sep [] = []"
| "joinWith sep [a] = a"
| "joinWith sep (a # b # r) = a @ sep @ joinWith sep (b # r)"

text \<open>\<open>jsonPathToPointer\<close> and \<open>repairRedactedPointers\<close>.\<close>

definition jsonPathToPointer :: "string \<Rightarrow> string option" where
  "jsonPathToPointer p =
     (if startsWith p ''$.'' then Some (''/'' @ joinWith ''/'' (splitOn (CHR ''.'') (drop 2 p)))
      else None)"

definition repairRedactedPointer :: "fact \<Rightarrow> fact" where
  "repairRedactedPointer f =
     (case jsonPointer f of
        None \<Rightarrow> f
      | Some q \<Rightarrow>
          if q \<noteq> [] \<and> stringIncludes q ''<redacted>''
          then (case jsonPathToPointer (jsonPath f) of
                  None \<Rightarrow> f
                | Some derived \<Rightarrow> f\<lparr>jsonPointer := Some derived\<rparr>)
          else f)"

text \<open>\<open>filterFacts\<close>: of two decisions on one path the \<open>Map\<close> keeps the later.\<close>

definition filterFacts :: "fact list \<Rightarrow> decision list \<Rightarrow> fact list" where
  "filterFacts fs decisions =
     (if decisions = [] then filter (\<lambda>f. gate f = OK) fs
      else
        concat (map (\<lambda>f.
          (case map_of (rev (map (\<lambda>d. (decisionPath d, d)) decisions)) (jsonPath f) of
             None \<Rightarrow> if gate f = OK then [f] else []
           | Some d \<Rightarrow>
               if decisionKind d = reject then []
               else if decisionKind d = edit \<and> editedValue d \<noteq> None
               then [f\<lparr> proposedValue := editedValue d,
                        repoSources := (case decisionAnchors d of None \<Rightarrow> repoSources f | Some as \<Rightarrow> as),
                        gate := OK \<rparr>]
               else [f])) fs))"

text \<open>
  \<open>get(currentCard, dotPath)\<close> of lodash, for a path without brackets: the path is one key
  when the card has a property of that name, and is split on the dots otherwise; the walk
  stops at \<open>null\<close> and \<open>undefined\<close>.
\<close>

definition lodashGet :: "json \<Rightarrow> string \<Rightarrow> json option" where
  "lodashGet obj dotPath =
     (if getProp obj dotPath \<noteq> None then getProp obj dotPath
      else walk (Some obj) (splitOn (CHR ''.'') dotPath))"

text \<open>
  The first loop of \<open>filterPatchByDecisions\<close>: for one accepted fact, the operation that
  initializes a parent that is \<open>null\<close> or missing, once for each parent, and the \<open>add\<close> of
  the proposed value. The state is the operations and \<open>fixedPaths\<close>.
\<close>

definition factOperations ::
  "json \<Rightarrow> operation list \<times> string list \<Rightarrow> fact \<Rightarrow> operation list \<times> string list" where
  "factOperations currentCard st f =
     (case jsonPointer f of
        None \<Rightarrow> st
      | Some pointer \<Rightarrow>
          if pointer = [] then st
          else
            (let parts = filter (\<lambda>t. t \<noteq> []) (splitOn (CHR ''/'') pointer);
                 parentParts = butlast parts;
                 parentPointer = ''/'' @ joinWith ''/'' parentParts;
                 dotPath = joinWith ''.'' parentParts;
                 lastPart = last parts;
                 isArrayIndex = (isDigits lastPart \<or> lastPart = ''-'');
                 st' = (if 1 < length parts \<and> nullish (lodashGet currentCard dotPath)
                           \<and> parentPointer \<notin> set (snd st)
                        then (fst st @ [Add parentPointer (Some (if isArrayIndex then JArr [] else JObj []))],
                              snd st @ [parentPointer])
                        else st)
             in (fst st' @ [Add pointer (proposedValue f)], snd st')))"

text \<open>A fact's source, anchors and confidence as the proposal file holds them.\<close>

definition kindName :: "sourceKind \<Rightarrow> string" where
  "kindName k = (case k of extracted \<Rightarrow> ''extracted'' | inferred \<Rightarrow> ''inferred'' | manual \<Rightarrow> ''manual'')"

definition anchorJson :: "anchor \<Rightarrow> json" where
  "anchorJson a =
     JObj ([(''path'', JStr (path a)), (''startLine'', JNum (startLine a)), (''endLine'', JNum (endLine a)),
            (''commit'', JStr (commit a))]
           @ (case fingerprint a of None \<Rightarrow> [] | Some x \<Rightarrow> [(''fingerprint'', JStr x)])
           @ (case kind a of None \<Rightarrow> [] | Some x \<Rightarrow> [(''kind'', JStr x)]))"

text \<open>
  \<open>fieldMeta.findIndex(m => m.path === decision.jsonPath)\<close>: the read of \<open>path\<close> throws on
  an element that is \<open>null\<close>.
\<close>

fun findMetaIndex :: "json list \<Rightarrow> string \<Rightarrow> nat \<Rightarrow> jserror + nat option" where
  "findMetaIndex [] p i = Inr None"
| "findMetaIndex (JNull # ms) p i = Inl TypeError"
| "findMetaIndex (m # ms) p i =
     (if getProp m ''path'' = Some (JStr p) then Inr (Some i) else findMetaIndex ms p (Suc i))"

text \<open>
  One switch of a decision (\<open>lock\<close> or \<open>skipGeneration\<close>) on the guard of a meta item:
  the guard and \<open>itemChanged\<close>. Setting a property of a guard that is a primitive throws.
\<close>

definition switchGuard :: "bool option \<Rightarrow> string \<Rightarrow> json \<times> bool \<Rightarrow> jserror + json \<times> bool" where
  "switchGuard flag k st =
     (case flag of
        None \<Rightarrow> Inr st
      | Some on \<Rightarrow>
          (let current = (case getProp (fst st) k of None \<Rightarrow> False | Some x \<Rightarrow> truthyJson x)
           in if on then
                (if current then Inr st
                 else (case setProp (fst st) k (JBool True) of Inl e \<Rightarrow> Inl e | Inr g \<Rightarrow> Inr (g, True)))
              else
                (if current
                 then (case fst st of JObj kvs \<Rightarrow> Inr (JObj (objDelete k kvs), True) | g \<Rightarrow> Inr (g, True))
                 else Inr st)))"

text \<open>\<open>Object.keys(value).length\<close>.\<close>

fun keyCount :: "json \<Rightarrow> nat" where
  "keyCount (JObj kvs) = length kvs"
| "keyCount (JArr xs) = length xs"
| "keyCount (JStr s) = length s"
| "keyCount _ = 0"

text \<open>
  The guard of an item that was copied from the card is the guard object of the card's
  own item: a switch on it changes the card that \<open>main\<close> holds. \<open>shareGuard\<close> writes
  the guard into the item of the card at the given index.
\<close>

definition shareGuard :: "json \<Rightarrow> nat \<Rightarrow> json \<Rightarrow> json" where
  "shareGuard currentCard i guard =
     (case currentCard of
        JObj kvs \<Rightarrow>
          (case map_of kvs ''ai'' of
             Some (JObj ai) \<Rightarrow>
               (case map_of ai ''fieldMeta'' of
                  Some (JArr ms) \<Rightarrow>
                    (if i < length ms
                     then (case ms ! i of
                             JObj m \<Rightarrow>
                               JObj (mapSet ''ai''
                                 (JObj (mapSet ''fieldMeta'' (JArr (ms[i := JObj (mapSet ''guard'' guard m)])) ai))
                                 kvs)
                           | _ \<Rightarrow> currentCard)
                     else currentCard)
                | _ \<Rightarrow> currentCard)
           | _ \<Rightarrow> currentCard)
      | _ \<Rightarrow> currentCard)"

text \<open>
  The second loop of \<open>filterPatchByDecisions\<close>, for one decision. The state is
  \<open>fieldMeta\<close>, each item with the mark that its guard is still the card's own object,
  \<open>fieldMetaChanged\<close>, and the card.
\<close>

definition decisionMeta ::
  "fact list \<Rightarrow> (json \<times> bool) list \<times> bool \<times> json \<Rightarrow> decision
     \<Rightarrow> jserror + (json \<times> bool) list \<times> bool \<times> json" where
  "decisionMeta proposalFacts st d =
     (let fieldMeta = fst st; currentCard = snd (snd st)
      in case find (\<lambda>f. jsonPath f = decisionPath d) proposalFacts of
           None \<Rightarrow> Inr st
         | Some f \<Rightarrow>
             (case findMetaIndex (map fst fieldMeta) (decisionPath d) 0 of
                Inl e \<Rightarrow> Inl e
              | Inr existingIndex \<Rightarrow>
                  (let metaItem =
                         (case existingIndex of
                            Some i \<Rightarrow> fromEntries (spreadProps (Some (fst (fieldMeta ! i))))
                          | None \<Rightarrow>
                              [(''path'', JStr (decisionPath d)),
                               (''source'', JObj [(''kind'', JStr (kindName (sourceKind f)))]),
                               (''confidence'', JNum (confidence f)),
                               (''repoSources'', JArr (map anchorJson (repoSources f))),
                               (''needs_review'', JBool False),
                               (''guard'', JObj [])]);
                       kept = (case map_of metaItem ''guard'' of None \<Rightarrow> False | Some g \<Rightarrow> truthyJson g);
                       guard0 = (if kept then the (map_of metaItem ''guard'') else JObj []);
                       shared = (case existingIndex of Some i \<Rightarrow> kept \<and> snd (fieldMeta ! i) | None \<Rightarrow> False)
                   in case switchGuard (lock d) ''locked'' (guard0, False) of
                        Inl e \<Rightarrow> Inl e
                      | Inr st1 \<Rightarrow>
                          (case switchGuard (skipGeneration d) ''skip_generation'' st1 of
                             Inl e \<Rightarrow> Inl e
                           | Inr (guard, itemChanged) \<Rightarrow>
                               (let item = JObj (if keyCount guard = 0
                                                 then objDelete ''guard'' (objSet ''guard'' guard metaItem)
                                                 else objSet ''guard'' guard metaItem);
                                    currentCard' = (case existingIndex of
                                                      Some i \<Rightarrow> if shared \<and> itemChanged
                                                                then shareGuard currentCard i guard
                                                                else currentCard
                                                    | None \<Rightarrow> currentCard)
                                in if itemChanged \<or> existingIndex = None
                                   then (case existingIndex of
                                           Some i \<Rightarrow>
                                             Inr (fieldMeta[i := (item, shared \<and> keyCount guard \<noteq> 0)], True,
                                                  currentCard')
                                         | None \<Rightarrow> Inr (fieldMeta @ [(item, False)], True, currentCard'))
                                   else Inr st)))))"

fun foldDecisions ::
  "fact list \<Rightarrow> (json \<times> bool) list \<times> bool \<times> json \<Rightarrow> decision list
     \<Rightarrow> jserror + (json \<times> bool) list \<times> bool \<times> json" where
  "foldDecisions proposalFacts st [] = Inr st"
| "foldDecisions proposalFacts st (d # ds) =
     (case decisionMeta proposalFacts st d of
        Inl e \<Rightarrow> Inl e
      | Inr st' \<Rightarrow> foldDecisions proposalFacts st' ds)"

text \<open>\<open>filterPatchByDecisions\<close>: one \<open>add\<close> for every accepted fact that has a pointer,
  and the update of \<open>ai.fieldMeta\<close>; the result is the operations and the card as the
  switches left it.\<close>

definition filterPatchByDecisions ::
  "fact list \<Rightarrow> fact list \<Rightarrow> json \<Rightarrow> decision list \<Rightarrow> jserror + operation list \<times> json" where
  "filterPatchByDecisions proposalFacts acceptedFacts currentCard decisions =
     (let operations = fst (foldl (factOperations currentCard) ([], []) acceptedFacts);
          ai = (if nullish (Some currentCard) then None else getProp currentCard ''ai'');
          fieldMeta = (if nullish ai then []
                       else (case getProp (the ai) ''fieldMeta'' of Some (JArr xs) \<Rightarrow> xs | _ \<Rightarrow> []))
      in case foldDecisions proposalFacts (map (\<lambda>m. (m, True)) fieldMeta, False, currentCard) decisions of
           Inl e \<Rightarrow> Inl e
         | Inr (fieldMeta', fieldMetaChanged, currentCard') \<Rightarrow>
             if fieldMetaChanged
             then Inr (operations
                       @ (if (case ai of None \<Rightarrow> True | Some a \<Rightarrow> \<not> truthyJson a)
                          then [Add ''/ai'' (Some (JObj []))] else [])
                       @ [Add ''/ai/fieldMeta'' (Some (JArr (map fst fieldMeta')))],
                       currentCard')
             else Inr (operations, currentCard'))"

text \<open>\<open>createEmptyCard\<close>; \<open>now\<close> is the clock's reading.\<close>

definition createEmptyCard :: "env \<Rightarrow> real \<Rightarrow> json" where
  "createEmptyCard E now = JObj
     [(''ai'', JObj []),
      (''business'', JObj
         [(''executiveSummary'', JNull), (''useCase'', JNull), (''intendedUse'', JNull),
          (''nonGoals'', JArr []), (''kpis'', JArr []), (''pilot'', JObj []),
          (''outOfScopeUse'', JArr []), (''userPopulations'', JArr []), (''hazardousUseCases'', JArr [])]),
      (''devInsight'', JObj
         [(''codeOverview'', JObj [(''languages'', JArr []), (''entrypoints'', JArr []), (''components'', JArr [])]),
          (''architecture'', JObj [(''publicApis'', JArr []), (''dataFlow'', JArr []), (''depsSummary'', JArr [])]),
          (''qualitySignals'', JObj
             [(''testsPresent'', JNull), (''coverageHint'', JNull),
              (''complexityHints'', JArr []), (''todoHotspots'', JArr [])]),
          (''runtimePerf'', JObj [(''latencyMsP50'', JNull), (''latencyMsP95'', JNull), (''notes'', JNull)])]),
      (''governance'', JObj
         [(''policies'', JArr []), (''assessments'', JArr []), (''riskRegister'', JArr []), (''signOffs'', JArr [])]),
      (''integration'', JObj
         [(''api'', JNull), (''security'', JNull), (''errorModel'', JArr []), (''idempotency'', JNull),
          (''versioningPolicy'', JNull), (''operationalQualities'', JArr []), (''fallbacks'', JArr []),
          (''observability'', JArr []), (''driftSignals'', JArr []), (''uxNotes'', JNull),
          (''feedbackChannels'', JNull), (''incidentReporting'', JNull)]),
      (''meta'', JObj
         [(''title'', JNull), (''owners'', JArr []), (''maturity'', JNull), (''tags'', JArr []),
          (''links'', JObj []), (''language'', JNull), (''createdAt'', JNull), (''lastUpdated'', JNull)]),
      (''mlCore'', JObj
         [(''problem'', JNull), (''datasets'', JArr []), (''features'', JArr []), (''baselines'', JArr []),
          (''qualities'', JArr []), (''failureModes'', JArr []), (''training'', JNull), (''artifactURIs'', JNull)]),
      (''provenance'', JObj
         [(''changelog'', JArr []), (''branch'', JNull), (''commit'', JNull),
          (''lastGeneratedAt'', JStr (toISOString E now))]),
      (''stakeholderNotes'', JObj [])]"

text \<open>
  The repair of the loaded card: a card that is falsy or not an object is replaced by
  the seed; otherwise every root section of the seed that is missing or \<open>null\<close> is taken
  from the seed. The result is the card and \<open>repaired\<close>.
\<close>

definition repairSection :: "json \<Rightarrow> json \<times> bool \<Rightarrow> string \<Rightarrow> json \<times> bool" where
  "repairSection seed st k =
     (if nullish (getProp (fst st) k)
      then (case setProp (fst st) k (case getProp seed k of None \<Rightarrow> JNull | Some v \<Rightarrow> v) of
              Inl e \<Rightarrow> (fst st, True)
            | Inr c \<Rightarrow> (c, True))
      else st)"

definition repairCard :: "json \<Rightarrow> json \<Rightarrow> json \<times> bool" where
  "repairCard currentCard seed =
     (if \<not> truthyJson currentCard \<or> \<not> isObjectLike currentCard then (seed, True)
      else foldl (repairSection seed) (currentCard, False) (map fst (spreadProps (Some seed))))"

text \<open>
  The facts that the validation errors are attributed to: the pointer is one of the
  \<open>instancePath\<close>s, or one of them lies below the pointer.
\<close>

definition invalidFact :: "string list \<Rightarrow> fact \<Rightarrow> bool" where
  "invalidFact badPaths f =
     (case jsonPointer f of
        None \<Rightarrow> False
      | Some q \<Rightarrow> q \<noteq> [] \<and> (q \<in> set badPaths \<or> list_ex (\<lambda>bp. startsWith bp (q @ ''/'')) badPaths))"

text \<open>
  The speculative loop, with the number of rounds that are left (\<open>MAX_LOOPS\<close> at the
  start): the patch of the last round and the facts that are kept. \<open>schemaErrors\<close> gives
  the \<open>instancePath\<close>s of the errors of the validator, none for a valid card. An exception
  of the patch library ends the loop; an exception of \<open>filterPatchByDecisions\<close> ends the
  run.
\<close>

definition MAX_LOOPS :: nat where
  "MAX_LOOPS = 5"

fun speculate ::
  "nat \<Rightarrow> (json \<Rightarrow> string list) \<Rightarrow> fact list \<Rightarrow> json \<Rightarrow> decision list \<Rightarrow> operation list \<Rightarrow> fact list
     \<Rightarrow> jserror + operation list \<times> fact list" where
  "speculate 0 schemaErrors proposalFacts currentCard decisions acceptedPatch filteredFacts =
     Inr (acceptedPatch, filteredFacts)"
| "speculate (Suc n) schemaErrors proposalFacts currentCard decisions acceptedPatch filteredFacts =
     (case filterPatchByDecisions proposalFacts filteredFacts currentCard decisions of
        Inl e \<Rightarrow> Inl e
      | Inr (patch, currentCard') \<Rightarrow>
          (case applyPatch (deepClone currentCard') patch of
             Inl e \<Rightarrow> Inr (patch, filteredFacts)
           | Inr (candidateCard, errors) \<Rightarrow>
               (let badPaths = schemaErrors candidateCard;
                    invalidFacts = filter (invalidFact badPaths) filteredFacts
                in if badPaths = [] \<or> invalidFacts = [] then Inr (patch, filteredFacts)
                   else speculate n schemaErrors proposalFacts currentCard' decisions patch
                          (filter (\<lambda>f. jsonPointer f \<notin> set (map jsonPointer invalidFacts)) filteredFacts))))"

text \<open>
  What a run of \<open>main\<close> does to the card: it ends before anything is written (strict
  mode without a decision for every fact), it throws, or it writes a card; the written
  card is given as the document of the new text, with the facts that were applied.
\<close>

datatype applied = Blocked | Failed jserror | Written json "fact list"

text \<open>
  \<open>main\<close>, up to the writing of the card. \<open>cardFile\<close> is the document of the card file
  (\<open>None\<close> for an empty text), \<open>notes\<close> the entries of the proposal's notes, \<open>seedNow\<close>
  and \<open>stampNow\<close> the readings of the clock for the seed and for \<open>lastGeneratedAt\<close>,
  \<open>evalStrict\<close> the setting \<open>EVAL_STRICT=1\<close>.
\<close>

definition applyMain ::
  "env \<Rightarrow> real \<Rightarrow> real \<Rightarrow> (json \<Rightarrow> string list) \<Rightarrow> bool \<Rightarrow> json option \<Rightarrow> fact list
     \<Rightarrow> (string \<times> json) list \<Rightarrow> decision list \<Rightarrow> applied" where
  "applyMain E seedNow stampNow schemaErrors evalStrict cardFile proposalFacts0 notes decisions =
     (let proposalFacts = map repairRedactedPointer proposalFacts0
      in if evalStrict
            \<and> (decisions = []
                \<or> list_ex (\<lambda>f. jsonPath f \<notin> set (map decisionPath decisions)) proposalFacts)
         then Blocked
         else
           (let filteredFacts = filterFacts proposalFacts decisions;
                loaded = (case cardFile of None \<Rightarrow> JObj [] | Some c \<Rightarrow> c);
                repair = repairCard loaded (createEmptyCard E seedNow);
                repairedCard = fst repair;
                removeSchema = (case getProp repairedCard ''$schema'' of None \<Rightarrow> False | Some x \<Rightarrow> truthyJson x);
                currentCard = (if removeSchema
                               then (case repairedCard of JObj kvs \<Rightarrow> JObj (objDelete ''$schema'' kvs) | c \<Rightarrow> c)
                               else repairedCard)
            in case (if snd repair then normalizeCard E repairedCard [] else Inr JNull) of
                 Inl e \<Rightarrow> Failed e
               | Inr unused \<Rightarrow>
                   (case (if removeSchema \<or> snd repair
                          then (case normalizeCard E currentCard [] of
                                  Inl e \<Rightarrow> Inl e
                                | Inr n \<Rightarrow> Inr (Some (reloaded n)))
                          else Inr cardFile) of
                      Inl e \<Rightarrow> Failed e
                    | Inr currentCardYaml \<Rightarrow>
                        (case speculate MAX_LOOPS schemaErrors proposalFacts currentCard decisions []
                                filteredFacts of
                           Inl e \<Rightarrow> Failed e
                         | Inr (acceptedPatch, keptFacts) \<Rightarrow>
                             (case applyPatchAndWriteCard E currentCardYaml
                                     (acceptedPatch
                                      @ [Add ''/provenance/lastGeneratedAt'' (Some (JStr (toISOString E stampNow)))]
                                      @ (if notes \<noteq> [] then [Add ''/stakeholderNotes'' (Some (JObj notes))]
                                         else [])) of
                                Inl e \<Rightarrow> Failed e
                              | Inr newCard \<Rightarrow> Written newCard keptFacts)))))"

section \<open>An example environment\<close>

text \<open>
  A small environment for evaluating the model on concrete inputs: both collations
  compare the character codes (the base collation after folding ASCII case), no string
  parses as a date, \<open>String(n)\<close> is given for the natural numbers, and the tables of
  comparison functions are looked up for their own keys only.
\<close>

definition numToString0 :: "jsnum \<Rightarrow> string" where
  "numToString0 n =
     (case n of
        Fin r \<Rightarrow> if 0 \<le> r \<and> r = of_int \<lfloor>r\<rfloor> then showNat (nat \<lfloor>r\<rfloor>) else ''?''
      | PInf \<Rightarrow> ''Infinity''
      | NInf \<Rightarrow> ''-Infinity''
      | NaN \<Rightarrow> ''NaN'')"

definition env0 :: env where
  "env0 =
     \<lparr> localeCompare = lexCompare,
       localeCompareBase = (\<lambda>a b. lexCompare (map toLowerChar a) (map toLowerChar b)),
       dateParse = (\<lambda>s. None),
       toISOString = (\<lambda>t. ''1970-01-01T00:00:00.000Z''),
       numToString = numToString0,
       strToNumber = (\<lambda>s. NaN),
       inheritedSorter = (\<lambda>k. NoSorter) \<rparr>"

text \<open>Example anchors, facts and replies.\<close>

definition anchorA :: anchor where
  "anchorA = \<lparr> path = ''README.md'', startLine = Fin 1, endLine = Fin 1,
               commit = ''abcdef0'', fingerprint = None, kind = Some ''docs'' \<rparr>"

definition factA :: fact where
  "factA = \<lparr> jsonPath = ''$.business.useCase'', jsonPointer = Some ''/business/useCase'',
             currentValue = None, proposedValue = Some (JStr ''Forecasting''),
             sourceKind = extracted, repoSources = [anchorA],
             confidence = Fin (9/10), gate = OK, verifierNotes = None \<rparr>"

text \<open>A fact without anchors and a fact inferred by the service.\<close>

definition factNoAnchors :: fact where
  "factNoAnchors = factA \<lparr> jsonPath := ''$.business.intendedUse'', repoSources := [] \<rparr>"


text \<open>A repository in which the snippet of \<open>anchorA\<close> can be read, and a service that
  answers every batch with one reply for \<open>factA\<close>.\<close>

definition replyFor :: "bool \<Rightarrow> string \<Rightarrow> jsnum option \<Rightarrow> verificationItem" where
  "replyFor ok c a = \<lparr> vjsonPath = ''$.business.useCase'', valid = ok, comment = c, adjustedConfidence = a \<rparr>"

definition io0 :: "verificationItem \<Rightarrow> verifierIO" where
  "io0 reply =
     \<lparr> snippets = (\<lambda>i. if i = ''README.md:1-1'' then Some ''# Forecasting service'' else None),
       stringifyLength = (\<lambda>p. 100),
       respond = (\<lambda>b. [reply]) \<rparr>"

text \<open>A repository of which only the README's title line gave an anchor, and one changed file.\<close>

definition titleAnchor :: draftAnchor where
  "titleAnchor = \<lparr> dpath = ''README.md'', dstartLine = Fin 1, dendLine = Fin 1,
                   dfingerprint = None, dkind = Some ''docs'' \<rparr>"

definition ctx0 :: insights where
  "ctx0 =
     \<lparr> ctxRunId = ''run-1'', ctxHeadSha = ''abcdef0'',
       useCase = ''To be determined from repository analysis.'',
       intendedUse = ''To be determined from repository analysis.'',
       nonGoals = [], outOfScopeUse = [], repositoryUrl = None, languages = [], entrypoints = [],
       components = [], dependencyHighlights = [], testsPresent = False, coverageHint = None,
       problemSummary = ''To be determined from repository analysis.'',
       userPopulations = [], dataFlow = [], governancePolicies = [],
       anchorMap = (\<lambda>k. if k = ''README.md#title'' then Some [titleAnchor] else None) \<rparr>"

definition titleFact :: fact where
  "titleFact =
     \<lparr> jsonPath = ''$.meta.title'', jsonPointer = Some ''/meta/title'', currentValue = None,
       proposedValue = Some (JStr ''ML System Card (GitHub-native, PR-first)''),
       sourceKind = extracted,
       repoSources = [\<lparr> path = ''README.md'', startLine = Fin 1, endLine = Fin 1, commit = ''abcdef0'',
                        fingerprint = None, kind = Some ''docs'' \<rparr>],
       confidence = Fin (95/100), gate = OK, verifierNotes = None \<rparr>"

definition changelogEntry :: json where
  "changelogEntry =
     JObj [(''date'', JStr ''1970-01-01T00:00:00.000Z''),
           (''summary'', JStr ''ML System Card run run-1 observed 1 changed files''),
           (''files'', JArr [JObj [(''path'', JStr ''README.md'')]]),
           (''runId'', JStr ''run-1''),
           (''headSha'', JStr ''abcdef0'')]"

definition changelogFact :: fact where
  "changelogFact =
     \<lparr> jsonPath = ''$.provenance.changelog[0]'', jsonPointer = Some ''/provenance/changelog/0'',
       currentValue = None, proposedValue = Some changelogEntry, sourceKind = extracted,
       repoSources = [\<lparr> path = ''README.md'', startLine = Fin 1, endLine = Fin 1, commit = ''abcdef0'',
                        fingerprint = None, kind = None \<rparr>],
       confidence = Fin (2026619832316723 / 2251799813685248), gate = OK, verifierNotes = None \<rparr>"

text \<open>Candidates of the reasoning service: a bare candidate for a path, with a
  confidence, with a value, and with anchors.\<close>

definition candidate :: "string \<Rightarrow> rawFact" where
  "candidate p =
     \<lparr> rjsonPath = Some p, rjsonPointer = None, rproposedValue = None, rcurrentValue = None,
       rrepoSources = None, rconfidence = None, rgate = None, rverifierNotes = None,
       rsourceKind = None \<rparr>"

definition rawAnchorA :: rawAnchor where
  "rawAnchorA = \<lparr> rpath = Some ''src/main.py'', rstartLine = Some (Fin 3), rendLine = Some (Fin 9),
                  rcommit = None, rkind = None \<rparr>"

text \<open>The largest double, \<open>Number.MAX_VALUE\<close>, and a card with a metric.\<close>

definition MAX_VALUE :: real where
  "MAX_VALUE = (2 ^ 53 - 1) * 2 ^ 971"

definition metricsCard :: "json \<Rightarrow> json" where
  "metricsCard v = JObj [(''mlCore'', JObj [(''metrics'', JArr [JObj [(''value'', v)]])])]"





definition failureCard :: json where
  "failureCard = JObj [(''mlCore'', JObj [(''failureModes'',
     JArr [JObj [(''name'', JStr ''b'')], JObj [(''name'', JStr ''a'')]])])]"



section \<open>The rounding, computed\<close>

lemma ilog_floor_log:
  assumes "2 \<le> b" "0 < x"
  shows "ilog b x = \<lfloor>log (real b) x\<rfloor>"
  using assms
proof (induction b x rule: ilog.induct)
  case (1 b x)
  have b1: "1 < real b" using "1.prems" by simp
  show ?case
  proof (cases "real b \<le> x")
    case True
    have pos: "0 < x / real b" using "1.prems" by simp
    have "ilog b x = ilog b (x / real b) + 1"
      using True "1.prems" by (subst ilog.simps) simp
    also have "ilog b (x / real b) = \<lfloor>log (real b) (x / real b)\<rfloor>"
      using "1.IH"(1) True "1.prems" pos by simp
    also have "log (real b) (x / real b) = log (real b) x - 1"
      using b1 "1.prems" by (simp add: log_divide)
    finally show ?thesis by simp
  next
    case False
    show ?thesis
    proof (cases "x < 1")
      case True
      have pos: "0 < x * real b" using "1.prems" by simp
      have "ilog b x = ilog b (x * real b) - 1"
        using True False "1.prems" by (subst ilog.simps) simp
      also have "ilog b (x * real b) = \<lfloor>log (real b) (x * real b)\<rfloor>"
        using "1.IH"(2) True False "1.prems" pos by simp
      also have "log (real b) (x * real b) = log (real b) x + 1"
        using b1 "1.prems" by (simp add: log_mult)
      finally show ?thesis by simp
    next
      case x1: False
      have "ilog b x = 0"
        using False x1 "1.prems" by (subst ilog.simps) simp
      moreover have "\<lfloor>log (real b) x\<rfloor> = 0"
      proof -
        have "0 \<le> log (real b) x" using b1 x1 by simp
        moreover have "log (real b) x < 1" using b1 False "1.prems" by (simp add: log_less_iff powr_one)
        ultimately show ?thesis by linarith
      qed
      ultimately show ?thesis by simp
    qed
  qed
qed

lemma powr_powInt: "0 < b \<Longrightarrow> real b powr real_of_int k = powInt b k"
  by (simp add: powInt_def powr_int)

lemma ilog_floor_log0: "2 \<le> b \<Longrightarrow> ilog b \<bar>x\<bar> = \<lfloor>log (real b) \<bar>x\<bar>\<rfloor>"
proof (cases "x = 0")
  case True
  then show ?thesis by (subst ilog.simps) (simp add: log_def)
next
  case False
  assume "2 \<le> b"
  then show ?thesis using False by (intro ilog_floor_log) simp_all
qed

lemma toPrecision_code [code]:
  "toPrecision p x =
     (let e = ilog 10 \<bar>x\<bar>;
          s = powInt 10 (e - (int p - 1))
      in sgn x * real_of_int \<lfloor>\<bar>x\<bar> / s + 1/2\<rfloor> * s)"
proof -
  have e: "\<lfloor>log 10 \<bar>x\<bar>\<rfloor> = ilog 10 \<bar>x\<bar>"
    using ilog_floor_log0 [of 10 x] by simp
  have p: "10 powr real_of_int k = powInt 10 k" for k
    using powr_powInt [of 10 k] by simp
  show ?thesis
    unfolding toPrecision_def e p by (rule refl)
qed

lemma parseFloat_code [code]:
  "parseFloat d =
     (if d = 0 then Fin 0
      else
        (let e = max (ilog 2 \<bar>d\<bar>) (- 1022);
             u = powInt 2 (e - 52);
             r = real_of_int (roundHalfEven (\<bar>d\<bar> / u)) * u
         in if r \<ge> 2 ^ 1024 then (if d > 0 then PInf else NInf)
            else Fin (sgn d * r)))"
proof -
  have e: "\<lfloor>log 2 \<bar>d\<bar>\<rfloor> = ilog 2 \<bar>d\<bar>"
    using ilog_floor_log0 [of 2 d] by simp
  have p: "2 powr real_of_int k = powInt 2 k" for k
    using powr_powInt [of 2 k] by simp
  show ?thesis
    unfolding parseFloat_def e p by (rule refl)
qed

text \<open>Two values of the repository's test of \<open>normalizeCard\<close>: 0.0001234 becomes the
  double 0.000123, and -0.0045678 the double -0.00457.\<close>

lemma normalizeNumber_small: "normalizeNumber (Fin (1234 / 10000000)) = JNum (Fin (2268949521066275 / 18446744073709551616))"
  by code_simp

lemma normalizeNumber_negative: "normalizeNumber (Fin (- 45678 / 10000000)) = JNum (Fin (- 5268851276053291 / 1152921504606846976))"
  by code_simp

section \<open>The verification pass only lowers trust\<close>

lemma js_lt_imp_le: "js_lt a b \<Longrightarrow> js_le a b"
  by (cases a; cases b) auto

lemma js_le_refl: "a \<noteq> NaN \<Longrightarrow> js_le a a"
  by (cases a) auto

lemma applyVerification_confidence:
  "confidence (applyVerification m f v) =
     (case adjustedConfidence v of
        None \<Rightarrow> confidence f
      | Some a \<Rightarrow> if js_lt a (confidence f) then a else confidence f)"
  by (simp add: applyVerification_def Let_def)

lemma applyVerification_not_raised:
  "confidence (applyVerification m f v) = confidence f
     \<or> js_lt (confidence (applyVerification m f v)) (confidence f)"
  by (simp add: applyVerification_confidence split: option.splits)

lemma verifyFact_not_raised:
  "confidence (verifyFact m vs f) = confidence f \<or> js_lt (confidence (verifyFact m vs f)) (confidence f)"
  by (simp add: verifyFact_def applyVerification_not_raised split: option.splits)

lemma verifyFact_le:
  "confidence f \<noteq> NaN \<Longrightarrow> js_le (confidence (verifyFact m vs f)) (confidence f)"
  using verifyFact_not_raised [of m vs f] by (auto simp: js_le_refl js_lt_imp_le)

lemma verifyFact_Nil [simp]: "verifyFact m [] = (\<lambda>f. f)"
  by (rule ext) (simp add: verifyFact_def)

lemma runVerifierPass_facts:
  "facts (runVerifierPass E io m fs) =
     map (verifyFact m (verifications (runVerifierPass E io m fs))) fs"
  by (simp add: runVerifierPass_def Let_def)

text \<open>
  C4. Confidence never increases under verification. The facts the pass returns stand
  in the order of its input; at every position the confidence after the pass is the
  confidence before it or a lower one, so it is below or equal to it (for a number that
  is not NaN, in the sense of \<open><=\<close>). A reply's \<open>adjustedConfidence\<close> is taken only when
  it is lower than the fact's confidence.
\<close>

theorem verification_confidence_monotone:
  "list_all2
     (\<lambda>f f'. (confidence f' = confidence f \<or> js_lt (confidence f') (confidence f))
        \<and> (confidence f \<noteq> NaN \<longrightarrow> js_le (confidence f') (confidence f)))
     reasonerFacts (facts (runVerifierPass E io minConfidence reasonerFacts))
   \<and> confidence (applyVerification minConfidence f v) =
       (case adjustedConfidence v of
          None \<Rightarrow> confidence f
        | Some a \<Rightarrow> if js_lt a (confidence f) then a else confidence f)"
proof
  show "list_all2
     (\<lambda>f f'. (confidence f' = confidence f \<or> js_lt (confidence f') (confidence f))
        \<and> (confidence f \<noteq> NaN \<longrightarrow> js_le (confidence f') (confidence f)))
     reasonerFacts (facts (runVerifierPass E io minConfidence reasonerFacts))"
    unfolding runVerifierPass_facts
    by (simp add: list_all2_map2 list.rel_refl verifyFact_not_raised verifyFact_le)
  show "confidence (applyVerification minConfidence f v) =
       (case adjustedConfidence v of
          None \<Rightarrow> confidence f
        | Some a \<Rightarrow> if js_lt a (confidence f) then a else confidence f)"
    by (rule applyVerification_confidence)
qed

text \<open>The theorem at a run in which the service lowers one confidence to 0.5 and
  proposes to raise another to 0.99.\<close>

theorem verification_confidence_monotone_witness:
  "list_all2
     (\<lambda>f f'. (confidence f' = confidence f \<or> js_lt (confidence f') (confidence f))
        \<and> (confidence f \<noteq> NaN \<longrightarrow> js_le (confidence f') (confidence f)))
     [factNoAnchors, factA]
     (facts (runVerifierPass env0 (io0 (replyFor True ''supported'' (Some (Fin (1/2))))) (Fin (65/100))
        [factNoAnchors, factA]))
   \<and> map confidence (facts (runVerifierPass env0 (io0 (replyFor True ''supported'' (Some (Fin (1/2)))))
        (Fin (65/100)) [factNoAnchors, factA])) = [Fin (9/10), Fin (1/2)]
   \<and> confidence (applyVerification (Fin (65/100)) factA (replyFor True ''supported'' (Some (Fin (99/100)))))
       = Fin (9/10)"
proof -
  have a: "map confidence (facts (runVerifierPass env0 (io0 (replyFor True ''supported'' (Some (Fin (1/2)))))
        (Fin (65/100)) [factNoAnchors, factA])) = [Fin (9/10), Fin (1/2)]"
    by code_simp
  have b: "confidence (applyVerification (Fin (65/100)) factA (replyFor True ''supported'' (Some (Fin (99/100)))))
       = Fin (9/10)"
    by code_simp
  show ?thesis
    using verification_confidence_monotone
      [of "[factNoAnchors, factA]" env0 "io0 (replyFor True ''supported'' (Some (Fin (1/2))))" "Fin (65/100)"
          factA "replyFor True ''supported'' (Some (Fin (99/100)))"]
      a b
    by blast
qed

section \<open>When the verification pass downgrades a gate\<close>






text \<open>A fact that enters the pass with \<open>Require\<close> and a confidence that is not below
  the minimum leaves a failed verification with \<open>Warn\<close>: the gate is set without a look
  at the gate the fact had.\<close>

lemma failed_verification_sets_warn:
  "gate (facts (runVerifierPass env0 (io0 (replyFor False ''not supported by the snippet'' None))
      (Fin (65/100)) [factA\<lparr>gate := Require\<rparr>]) ! 0) = Warn"
  by code_simp




section \<open>Facts without anchors in the verification pass\<close>

lemma addToBatch_facts:
  "(\<forall>b\<in>set (batches (addToBatch io st item)). set (bfacts b) \<subseteq> S)
     \<and> set (currentBatchFacts (addToBatch io st item)) \<subseteq> S"
  if "\<forall>b\<in>set (batches st). set (bfacts b) \<subseteq> S" "set (currentBatchFacts st) \<subseteq> S" "item \<in> S"
  using that by (auto simp: addToBatch_def Let_def)

lemma foldl_addToBatch_facts:
  "(\<forall>b\<in>set (batches st). set (bfacts b) \<subseteq> S) \<Longrightarrow> set (currentBatchFacts st) \<subseteq> S \<Longrightarrow> set items \<subseteq> S
   \<Longrightarrow> (\<forall>b\<in>set (batches (foldl (addToBatch io) st items)). set (bfacts b) \<subseteq> S)
     \<and> set (currentBatchFacts (foldl (addToBatch io) st items)) \<subseteq> S"
proof (induction items arbitrary: st)
  case Nil
  then show ?case by simp
next
  case (Cons a items)
  have "(\<forall>b\<in>set (batches (addToBatch io st a)). set (bfacts b) \<subseteq> S)
     \<and> set (currentBatchFacts (addToBatch io st a)) \<subseteq> S"
    using Cons.prems by (intro addToBatch_facts) auto
  then show ?case
    using Cons.IH [of "addToBatch io st a"] Cons.prems by simp
qed

lemma makeBatches_facts:
  "b \<in> set (makeBatches io items) \<Longrightarrow> set (bfacts b) \<subseteq> set items"
  using foldl_addToBatch_facts [of "\<lparr> batches = [], currentBatchFacts = [], currentBatchSnippets = [], currentTokens = 0 \<rparr>"
      "set items" items io]
  by (auto simp: makeBatches_def Let_def split: if_splits)

lemma preValidate_fst:
  "w \<in> set (fst (foldl (preValidate E sn) st gs)) \<Longrightarrow>
     w \<in> set (fst st) \<or> (\<exists>g\<in>set gs. jsonPath w = jsonPath g)"
proof (induction gs arbitrary: st)
  case Nil
  then show ?case by simp
next
  case (Cons g gs)
  from Cons.IH [OF Cons.prems [simplified]]
  show ?case
    by (auto simp: preValidate_def Let_def split: if_splits)
qed

lemma preValidate_snd:
  "p \<in> set (snd (foldl (preValidate E sn) st gs)) \<Longrightarrow>
     p \<in> set (snd st) \<or> (\<exists>g\<in>set gs. vjsonPath p = jsonPath g)"
proof (induction gs arbitrary: st)
  case Nil
  then show ?case by simp
next
  case (Cons g gs)
  from Cons.IH [OF Cons.prems [simplified]]
  show ?case
    by (auto simp: preValidate_def Let_def split: if_splits)
qed

lemma preValidate_snd_mono:
  "p \<in> set (snd st) \<Longrightarrow> p \<in> set (snd (foldl (preValidate E sn) st gs))"
  by (induction gs arbitrary: st) (auto simp: preValidate_def Let_def)

lemma preValidate_marks:
  "g \<in> set gs \<Longrightarrow> filter (\<lambda>a. snippetAvailable sn (getAnchorId E a)) (repoSources g) = [] \<Longrightarrow>
     \<lparr> vjsonPath = jsonPath g, valid = False,
       comment = ''Source snippet unavailable or file not found.'',
       adjustedConfidence = Some (Fin (1/2)) \<rparr> \<in> set (snd (foldl (preValidate E sn) st gs))"
proof (induction gs arbitrary: st)
  case Nil
  then show ?case by simp
next
  case (Cons a gs)
  show ?case
  proof (cases "g = a")
    case True
    then have "\<lparr> vjsonPath = jsonPath g, valid = False,
       comment = ''Source snippet unavailable or file not found.'',
       adjustedConfidence = Some (Fin (1/2)) \<rparr> \<in> set (snd (preValidate E sn st a))"
      using Cons.prems(2) by (simp add: preValidate_def Let_def)
    then show ?thesis
      by (simp add: preValidate_snd_mono)
  next
    case False
    then show ?thesis using Cons by simp
  qed
qed

lemma runVerifierPass_calls:
  assumes "b \<in> set (calls (runVerifierPass E io m fs))" and "p \<in> set (bfacts b)"
  shows "\<exists>g\<in>set fs. repoSources g \<noteq> [] \<and> pjsonPath p = jsonPath g"
proof -
  let ?gs = "filter (\<lambda>f. repoSources f \<noteq> []) fs"
  let ?ws = "fst (foldl (preValidate E (snippets io)) ([], []) ?gs)"
  from assms(1) have ne: "?gs \<noteq> []" and b: "b \<in> set (makeBatches io (map (toPayload E) ?ws))"
    by (auto simp: runVerifierPass_def Let_def split: if_splits)
  from makeBatches_facts [OF b] assms(2) obtain w where w: "w \<in> set ?ws" "p = toPayload E w"
    by auto
  from preValidate_fst [OF w(1)] obtain g where "g \<in> set ?gs" "jsonPath w = jsonPath g"
    by auto
  with w(2) show ?thesis
    by (auto simp: toPayload_def)
qed

lemma runVerifierPass_verifications:
  assumes "v \<in> set (verifications (runVerifierPass E io m fs))"
  shows "(\<exists>g\<in>set fs. repoSources g \<noteq> [] \<and> vjsonPath v = jsonPath g)
         \<or> (\<exists>b\<in>set (calls (runVerifierPass E io m fs)). v \<in> set (respond io b))"
proof -
  let ?gs = "filter (\<lambda>f. repoSources f \<noteq> []) fs"
  let ?st = "foldl (preValidate E (snippets io)) ([], []) ?gs"
  from assms have "?gs \<noteq> []"
    by (auto simp: runVerifierPass_def Let_def split: if_splits)
  with assms have "v \<in> set (snd ?st)
      \<or> (\<exists>b\<in>set (calls (runVerifierPass E io m fs)). v \<in> set (respond io b))"
    by (auto simp: runVerifierPass_def Let_def)
  then show ?thesis
    using preValidate_snd [of v E "snippets io" "([], [])" ?gs] by auto
qed

lemma runVerifierPass_marks:
  assumes "g \<in> set fs" and "repoSources g \<noteq> []"
    and "filter (\<lambda>a. snippetAvailable (snippets io) (getAnchorId E a)) (repoSources g) = []"
  shows "\<lparr> vjsonPath = jsonPath g, valid = False,
           comment = ''Source snippet unavailable or file not found.'',
           adjustedConfidence = Some (Fin (1/2)) \<rparr> \<in> set (verifications (runVerifierPass E io m fs))"
proof -
  let ?gs = "filter (\<lambda>f. repoSources f \<noteq> []) fs"
  from assms(1,2) have g: "g \<in> set ?gs"
    by simp
  then have "?gs \<noteq> []"
    by (metis empty_iff empty_set)
  then show ?thesis
    using preValidate_marks [OF g assms(3), of "([], [])"]
    by (simp add: runVerifierPass_def Let_def)
qed

text \<open>
  C8, as the code has it. A fact with no anchors is left out of the verification, and no
  call to the reasoning service is made for it. When its path is not also the path of a
  fact with anchors: no batch sent to the service names it; every verification with its
  path is a reply of the service, so the pass itself does not mark it invalid; and unless
  a reply of the service names its path, the pass returns it unchanged at its position,
  gate included.
\<close>

theorem verification_skips_unanchored:
  assumes "r = runVerifierPass E io m fs"
    and "i < length fs"
    and "repoSources (fs ! i) = []"
    and "\<forall>g\<in>set fs. jsonPath g = jsonPath (fs ! i) \<longrightarrow> repoSources g = []"
  shows "(\<forall>b\<in>set (calls r). jsonPath (fs ! i) \<notin> set (map pjsonPath (bfacts b)))
       \<and> (\<forall>v\<in>set (verifications r). vjsonPath v = jsonPath (fs ! i)
             \<longrightarrow> (\<exists>b\<in>set (calls r). v \<in> set (respond io b)))
       \<and> length (facts r) = length fs
       \<and> ((\<forall>b\<in>set (calls r). \<forall>v\<in>set (respond io b). vjsonPath v \<noteq> jsonPath (fs ! i))
            \<longrightarrow> facts r ! i = fs ! i)"
proof (intro conjI)
  show "\<forall>b\<in>set (calls r). jsonPath (fs ! i) \<notin> set (map pjsonPath (bfacts b))"
    using runVerifierPass_calls [of _ E io m fs] assms(1,4) by fastforce
  show made: "\<forall>v\<in>set (verifications r). vjsonPath v = jsonPath (fs ! i)
             \<longrightarrow> (\<exists>b\<in>set (calls r). v \<in> set (respond io b))"
    using runVerifierPass_verifications [of _ E io m fs] assms(1,4) by fastforce
  show "length (facts r) = length fs"
    by (simp add: assms(1) runVerifierPass_facts)
  show "(\<forall>b\<in>set (calls r). \<forall>v\<in>set (respond io b). vjsonPath v \<noteq> jsonPath (fs ! i))
            \<longrightarrow> facts r ! i = fs ! i"
  proof
    assume quiet: "\<forall>b\<in>set (calls r). \<forall>v\<in>set (respond io b). vjsonPath v \<noteq> jsonPath (fs ! i)"
    have "\<And>v. v \<in> set (verifications r) \<Longrightarrow> vjsonPath v \<noteq> jsonPath (fs ! i)"
      using made quiet by blast
    then have "find (\<lambda>v. vjsonPath v = jsonPath (fs ! i)) (verifications r) = None"
      by (auto simp: find_None_iff)
    then have "verifyFact m (verifications r) (fs ! i) = fs ! i"
      by (simp add: verifyFact_def)
    moreover have "facts r ! i = verifyFact m (verifications r) (fs ! i)"
      using assms(1,2) by (simp add: runVerifierPass_facts)
    ultimately show "facts r ! i = fs ! i"
      by simp
  qed
qed

text \<open>The theorem at a run over a fact without anchors and a fact with one.\<close>

theorem verification_skips_unanchored_witness:
  "repoSources ([factNoAnchors, factA] ! 0) = []
   \<and> map (\<lambda>b. map pjsonPath (bfacts b))
        (calls (runVerifierPass env0 (io0 (replyFor True ''supported'' None)) (Fin (65/100))
           [factNoAnchors, factA])) = [[''$.business.useCase'']]
   \<and> facts (runVerifierPass env0 (io0 (replyFor True ''supported'' None)) (Fin (65/100))
           [factNoAnchors, factA]) ! 0 = factNoAnchors"
proof -
  let ?r = "runVerifierPass env0 (io0 (replyFor True ''supported'' None)) (Fin (65/100)) [factNoAnchors, factA]"
  have a: "(0::nat) < length [factNoAnchors, factA]"
    by simp
  have b: "repoSources ([factNoAnchors, factA] ! 0) = []"
    by (simp add: factNoAnchors_def)
  have c: "\<forall>g\<in>set [factNoAnchors, factA].
             jsonPath g = jsonPath ([factNoAnchors, factA] ! 0) \<longrightarrow> repoSources g = []"
    by (simp add: factNoAnchors_def factA_def)
  have d: "map (\<lambda>b. map pjsonPath (bfacts b)) (calls ?r) = [[''$.business.useCase'']]"
    by code_simp
  have e: "\<forall>b\<in>set (calls ?r). \<forall>v\<in>set (respond (io0 (replyFor True ''supported'' None)) b).
             vjsonPath v \<noteq> jsonPath ([factNoAnchors, factA] ! 0)"
    by (simp add: io0_def replyFor_def factNoAnchors_def)
  from verification_skips_unanchored [OF refl a b c] e
  have "facts ?r ! 0 = [factNoAnchors, factA] ! 0"
    by blast
  with b d show ?thesis
    by simp
qed

text \<open>
  The claim as the specification states it fails: a fact with no anchors gets no
  verification at all, and leaves the pass with its gate \<open>OK\<close>.
\<close>

theorem verification_skips_unanchored_counterexample:
  "repoSources factNoAnchors = []
   \<and> map vjsonPath (verifications (runVerifierPass env0 (io0 (replyFor True ''supported'' None))
        (Fin (65/100)) [factNoAnchors, factA])) = [''$.business.useCase'']
   \<and> facts (runVerifierPass env0 (io0 (replyFor True ''supported'' None)) (Fin (65/100))
        [factNoAnchors, factA]) ! 0 = factNoAnchors
   \<and> gate factNoAnchors = OK"
  by code_simp

section \<open>Every fact of a proposal has an anchor\<close>
lemma set_insort_by [simp]: "set (insort_by lt x xs) = insert x (set xs)"
  by (induction xs) auto

lemma set_sort_by [simp]: "set (sort_by lt xs) = set xs"
  by (induction xs) (auto simp: sort_by_def)

lemma in_mapSet: "x \<in> set (mapSet k v m) \<Longrightarrow> x = (k, v) \<or> x \<in> set m"
  by (induction m) (auto split: if_splits)

lemma set_mapSet: "set (mapValues (mapSet k v m)) \<subseteq> insert v (set (mapValues m))"
  using in_mapSet [of _ k v m] by (fastforce simp: mapValues_def)

lemma mapSet_all:
  "\<forall>f\<in>set (mapValues m). P f \<Longrightarrow> P v \<Longrightarrow> \<forall>f\<in>set (mapValues (mapSet k v m)). P f"
  using set_mapSet [of k v m] by auto

lemma mapGet_in: "mapGet m k = Some v \<Longrightarrow> v \<in> set (mapValues m)"
  unfolding mapGet_def mapValues_def
  by (metis image_eqI list.set_map map_of_SomeD snd_conv)
lemma foldl_mapSet_values:
  "set (mapValues (foldl (\<lambda>m f. mapSet (key f) f m) m0 fs)) \<subseteq> set (mapValues m0) \<union> set fs"
proof (induction fs arbitrary: m0)
  case Nil
  then show ?case by simp
next
  case (Cons f fs)
  show ?case
    using Cons.IH [of "mapSet (key f) f m0"] set_mapSet [of "key f" f m0] by auto
qed

lemma set_factMap: "set (mapValues (factMap fs)) \<subseteq> set fs"
  using foldl_mapSet_values [of jsonPath "[]" fs] by (simp add: factMap_def mapValues_def)
lemma insertedFact_sources [simp]: "repoSources (insertedFact p q as c) = as"
  by (simp add: insertedFact_def)

lemma updatedFact_sources [simp]:
  "repoSources (updatedFact existing as c) = (if as \<noteq> [] then as else repoSources existing)"
  by (simp add: updatedFact_def Let_def)

lemma patchedFact_sources [simp]:
  "repoSources (patchedFact headSha existing c) =
     (case rrepoSources c of
        None \<Rightarrow> repoSources existing
      | Some as \<Rightarrow> if as \<noteq> [] then map (reconcileAnchor headSha (repoSources existing)) as
                   else repoSources existing)"
  by (simp add: patchedFact_def Let_def)

lemma mergeCandidate_cases:
  obtains (skip) "mergeCandidate headSha m c = m"
  | (new) p q as where "as \<noteq> []" "mergeCandidate headSha m c = mapSet p (insertedFact p q as c) m"
  | (old) p existing as where "mapGet m p = Some existing"
      "mergeCandidate headSha m c = mapSet p (updatedFact existing as c) m"
proof (cases "rjsonPath c")
  case None
  then show ?thesis by (intro skip) (simp add: mergeCandidate_def)
next
  case p: (Some p)
  show ?thesis
  proof (cases "p = [] \<or> isDeterministicOnly p")
    case True
    then show ?thesis by (intro skip) (auto simp add: mergeCandidate_def p)
  next
    case ok: False
    show ?thesis
    proof (cases "mapGet m p")
      case None
      let ?q = "case rjsonPointer c of None \<Rightarrow> derivePointer p | Some q \<Rightarrow> if q = [] then derivePointer p else q"
      let ?as = "normalizeAnchors (orElse (rrepoSources c) []) headSha"
      show ?thesis
      proof (cases "?q = [] \<or> ?as = []")
        case True
        then show ?thesis using ok by (intro skip) (auto simp add: mergeCandidate_def p None Let_def)
      next
        case False
        then have "mergeCandidate headSha m c = mapSet p (insertedFact p ?q ?as c) m"
          using ok by (simp add: mergeCandidate_def p None Let_def)
        with False show ?thesis by (intro new [of ?as p ?q]) auto
      qed
    next
      case (Some existing)
      then have "mergeCandidate headSha m c
          = mapSet p (updatedFact existing (normalizeAnchors (orElse (rrepoSources c) []) headSha) c) m"
        using ok by (simp add: mergeCandidate_def p)
      with Some show ?thesis by (intro old)
    qed
  qed
qed

lemma mergeCandidate_anchored:
  assumes "\<forall>f\<in>set (mapValues m). repoSources f \<noteq> []"
  shows "\<forall>f\<in>set (mapValues (mergeCandidate headSha m c)). repoSources f \<noteq> []"
proof (cases rule: mergeCandidate_cases [of headSha m c])
  case skip
  then show ?thesis using assms by simp
next
  case (new p q as)
  show ?thesis
    unfolding new(2) by (rule mapSet_all [OF assms]) (simp add: new(1))
next
  case (old p existing as)
  have "existing \<in> set (mapValues m)"
    by (rule mapGet_in [OF old(1)])
  with assms have "repoSources existing \<noteq> []"
    by blast
  then show ?thesis
    unfolding old(2) by (intro mapSet_all [OF assms]) simp
qed

lemma reconcilePatch_cases:
  obtains (skip) "reconcilePatch headSha m c = m"
  | (old) p existing where "mapGet m p = Some existing"
      "reconcilePatch headSha m c = mapSet p (patchedFact headSha existing c) m"
proof (cases "rjsonPath c")
  case None
  then show ?thesis by (intro skip) (simp add: reconcilePatch_def)
next
  case p: (Some p)
  show ?thesis
  proof (cases "mapGet m p")
    case None
    then show ?thesis by (intro skip) (simp add: reconcilePatch_def p)
  next
    case (Some existing)
    show ?thesis
    proof (cases "p = []")
      case True
      then show ?thesis by (intro skip) (simp add: reconcilePatch_def p)
    next
      case False
      then have "reconcilePatch headSha m c = mapSet p (patchedFact headSha existing c) m"
        by (simp add: reconcilePatch_def p Some)
      with Some show ?thesis by (intro old)
    qed
  qed
qed

lemma reconcilePatch_anchored:
  assumes "\<forall>f\<in>set (mapValues m). repoSources f \<noteq> []"
  shows "\<forall>f\<in>set (mapValues (reconcilePatch headSha m c)). repoSources f \<noteq> []"
proof (cases rule: reconcilePatch_cases [of headSha m c])
  case skip
  then show ?thesis using assms by simp
next
  case (old p existing)
  have "existing \<in> set (mapValues m)"
    by (rule mapGet_in [OF old(1)])
  with assms have "repoSources existing \<noteq> []"
    by blast
  then show ?thesis
    unfolding old(2) by (intro mapSet_all [OF assms]) (simp split: option.splits)
qed

lemma foldl_mergeCandidate_anchored:
  "\<forall>f\<in>set (mapValues m). repoSources f \<noteq> [] \<Longrightarrow>
   \<forall>f\<in>set (mapValues (foldl (mergeCandidate headSha) m cs)). repoSources f \<noteq> []"
proof (induction cs arbitrary: m)
  case Nil
  then show ?case by simp
next
  case (Cons c cs)
  from Cons.IH [OF mergeCandidate_anchored [OF Cons.prems]] show ?case
    by simp
qed

lemma mergeFacts_anchored:
  assumes "\<forall>f\<in>set baselineFacts. repoSources f \<noteq> []"
  shows "\<forall>f\<in>set (mergeFacts E rawFacts baselineFacts headSha). repoSources f \<noteq> []"
proof (cases "rawFacts = []")
  case True
  then show ?thesis using assms by (simp add: mergeFacts_def)
next
  case False
  have "\<forall>f\<in>set (mapValues (factMap baselineFacts)). repoSources f \<noteq> []"
    using assms set_factMap by blast
  from foldl_mergeCandidate_anchored [OF this, of headSha rawFacts]
  show ?thesis
    by (simp add: mergeFacts_def sortFactsByPath_def False)
qed

lemma reconcileFacts_anchored:
  assumes "\<forall>f\<in>set baseFacts. repoSources f \<noteq> []"
  shows "\<forall>f\<in>set (reconcileFacts E baseFacts patches headSha). repoSources f \<noteq> []"
proof -
  have a: "\<forall>f\<in>set (mapValues (factMap baseFacts)). repoSources f \<noteq> []"
    using assms set_factMap by blast
  have "\<forall>f\<in>set (mapValues m). repoSources f \<noteq> [] \<Longrightarrow>
     \<forall>f\<in>set (mapValues (foldl (reconcilePatch headSha) m cs)). repoSources f \<noteq> []" for m cs
  proof (induction cs arbitrary: m)
    case Nil
    then show ?case by simp
  next
    case (Cons c cs)
    from Cons.IH [OF reconcilePatch_anchored [OF Cons.prems]] show ?case
      by simp
  qed
  from this [OF a] show ?thesis
    by (simp add: reconcileFacts_def sortFactsByPath_def)
qed

lemma applyVerification_repoSources [simp]: "repoSources (applyVerification m f v) = repoSources f"
  by (simp add: applyVerification_def Let_def)

lemma verifyFact_repoSources [simp]: "repoSources (verifyFact m vs f) = repoSources f"
  by (simp add: verifyFact_def split: option.splits)

lemma runVerifierPass_anchored:
  assumes "\<forall>f\<in>set fs. repoSources f \<noteq> []"
  shows "\<forall>f\<in>set (facts (runVerifierPass E io m fs)). repoSources f \<noteq> []"
  unfolding runVerifierPass_facts using assms by simp

lemma finalFacts_anchored:
  assumes "\<forall>f\<in>set det. repoSources f \<noteq> []"
  shows "\<forall>f\<in>set (finalFacts E io m raw patches headSha det). repoSources f \<noteq> []"
proof -
  have "\<forall>f\<in>set (take maxFacts (mergeFacts E raw det headSha)). repoSources f \<noteq> []"
    using mergeFacts_anchored [OF assms, of E raw headSha] by (blast dest: in_set_takeD)
  from runVerifierPass_anchored [OF reconcileFacts_anchored [OF this]]
  show ?thesis
    by (simp add: finalFacts_def)
qed

lemma addFact_Inl [simp]: "addFact sha (Inl e) d = Inl e"
  by (simp add: addFact_def)

lemma foldl_addFact_Inl [simp]: "foldl (addFact sha) (Inl e) ds = Inl e"
  by (induction ds) simp_all

lemma foldl_addFact_facts:
  "foldl (addFact sha) (Inr (c, fs)) ds = Inr (c', fs') \<Longrightarrow>
     fs' = fs @ map (\<lambda>d. toFact d sha) (filter hasAnchors ds)"
proof (induction ds arbitrary: c fs)
  case Nil
  then show ?case by simp
next
  case (Cons d ds)
  show ?case
  proof (cases "addFact sha (Inr (c, fs)) d")
    case (Inl e)
    then show ?thesis using Cons.prems by simp
  next
    case (Inr st)
    obtain c1 fs1 where st: "st = (c1, fs1)" by (cases st)
    have fs1: "fs1 = fs @ (if hasAnchors d then [toFact d sha] else [])"
      using Inr st by (auto simp: addFact_def hasAnchors_def split: option.splits if_splits sum.splits)
    from Cons.prems Inr st have "foldl (addFact sha) (Inr (c1, fs1)) ds = Inr (c', fs')"
      by simp
    from Cons.IH [OF this] fs1 show ?thesis
      by simp
  qed
qed

lemma toFact_anchored: "hasAnchors d \<Longrightarrow> repoSources (toFact d sha) \<noteq> []"
  by (auto simp: toFact_def hasAnchors_def split: option.splits)

lemma buildChangelogFacts_sources:
  "map repoSources (snd (buildChangelogFacts E now mutated baseline changedFiles context)) =
     (if changedFiles = [] then []
      else [map (\<lambda>p. \<lparr> path = p, startLine = Fin 1, endLine = Fin 1,
                          commit = ctxHeadSha context, fingerprint = None, kind = None \<rparr>) changedFiles])"
  unfolding buildChangelogFacts_def Let_def by simp

lemma buildChangelogFacts_anchored:
  assumes "f \<in> set (snd (buildChangelogFacts E now mutated baseline changedFiles context))"
  shows "repoSources f \<noteq> []"
proof -
  from assms have "repoSources f \<in> set (map repoSources (snd (buildChangelogFacts E now mutated baseline changedFiles context)))"
    by simp
  then show ?thesis
    unfolding buildChangelogFacts_sources by (auto split: if_splits)
qed

lemma buildFactsAndMutations_facts:
  assumes "buildFactsAndMutations E now baseline changedFiles context = Inr (mutatedCard, det)"
  shows "\<exists>mutated. det = map (\<lambda>d. toFact d (ctxHeadSha context)) (filter hasAnchors (baselineDrafts baseline context))
            @ snd (buildChangelogFacts E now mutated baseline changedFiles context)"
proof -
  from assms obtain mutated fs where
    f: "foldl (addFact (ctxHeadSha context)) (Inr (deepClone baseline, [])) (baselineDrafts baseline context) = Inr (mutated, fs)"
    and d: "det = fs @ snd (buildChangelogFacts E now mutated baseline changedFiles context)"
    by (auto simp: buildFactsAndMutations_def Let_def split: sum.splits prod.splits if_splits)
  from foldl_addFact_facts [OF f] d show ?thesis
    by auto
qed

lemma buildFactsAndMutations_anchored:
  assumes "buildFactsAndMutations E now baseline changedFiles context = Inr (mutatedCard, det)"
  shows "\<forall>f\<in>set det. repoSources f \<noteq> []"
  using buildFactsAndMutations_facts [OF assms]
  by (auto simp: toFact_anchored buildChangelogFacts_anchored)


lemma mergeCandidate_no_anchors:
  assumes "rjsonPath c = Some p" and "mapGet m p = None"
    and "normalizeAnchors (orElse (rrepoSources c) []) headSha = []"
  shows "mergeCandidate headSha m c = m"
  using assms by (simp add: mergeCandidate_def Let_def)

lemma mergeCandidate_existing:
  assumes "rjsonPath c = Some p" and "p \<noteq> []" and "\<not> isDeterministicOnly p"
    and "mapGet m p = Some existing"
  shows "mergeCandidate headSha m c
     = mapSet p (updatedFact existing (normalizeAnchors (orElse (rrepoSources c) []) headSha) c) m"
  using assms by (simp add: mergeCandidate_def)

lemma addFact_no_anchors: "\<not> hasAnchors d \<Longrightarrow> addFact sha (Inr st) d = Inr st"
  by (cases st) (auto simp: addFact_def hasAnchors_def split: option.splits)

text \<open>
  C3. Every fact of a proposal has at least one anchor. When the deterministic baseline
  returns its facts \<open>det\<close>, every fact that the passes make of them (the extractor's
  merge with any candidates, the reasoner's reconciliation with any patches, the
  verification with any replies) has an anchor, and so has every fact of the baseline
  and of the merge alone. In the merge, a candidate at a new path whose normalized
  anchors are empty changes nothing; a candidate at an existing path stores its
  normalized anchors when there are some and the existing anchors otherwise. In the
  baseline, a rule without anchors changes nothing, and the facts returned are exactly
  the rules that have anchors, in order, followed by the changelog fact.
\<close>

theorem anchor_invariant:
  assumes "buildFactsAndMutations E now baseline changedFiles context = Inr (mutatedCard, det)"
  shows "(\<forall>f\<in>set (finalFacts E io minConfidence rawFacts patches headSha det). repoSources f \<noteq> [])
       \<and> (\<forall>f\<in>set det. repoSources f \<noteq> [])
       \<and> (\<forall>f\<in>set (mergeFacts E rawFacts det headSha). repoSources f \<noteq> [])
       \<and> (rjsonPath c = Some p \<and> mapGet m p = None
            \<and> normalizeAnchors (orElse (rrepoSources c) []) headSha = []
          \<longrightarrow> mergeCandidate headSha m c = m)
       \<and> (rjsonPath c = Some p \<and> p \<noteq> [] \<and> \<not> isDeterministicOnly p \<and> mapGet m p = Some existing
          \<longrightarrow> (\<exists>f. mergeCandidate headSha m c = mapSet p f m
                \<and> repoSources f =
                    (if normalizeAnchors (orElse (rrepoSources c) []) headSha \<noteq> []
                     then normalizeAnchors (orElse (rrepoSources c) []) headSha
                     else repoSources existing)))
       \<and> (\<not> hasAnchors d \<longrightarrow> addFact (ctxHeadSha context) (Inr st) d = Inr st)
       \<and> (\<exists>mutated. det =
             map (\<lambda>d. toFact d (ctxHeadSha context)) (filter hasAnchors (baselineDrafts baseline context))
             @ snd (buildChangelogFacts E now mutated baseline changedFiles context))"
proof -
  have det: "\<forall>f\<in>set det. repoSources f \<noteq> []"
    by (rule buildFactsAndMutations_anchored [OF assms])
  have existing: "rjsonPath c = Some p \<and> p \<noteq> [] \<and> \<not> isDeterministicOnly p \<and> mapGet m p = Some existing
          \<longrightarrow> (\<exists>f. mergeCandidate headSha m c = mapSet p f m
                \<and> repoSources f =
                    (if normalizeAnchors (orElse (rrepoSources c) []) headSha \<noteq> []
                     then normalizeAnchors (orElse (rrepoSources c) []) headSha
                     else repoSources existing))"
  proof
    assume a: "rjsonPath c = Some p \<and> p \<noteq> [] \<and> \<not> isDeterministicOnly p \<and> mapGet m p = Some existing"
    then have "mergeCandidate headSha m c
       = mapSet p (updatedFact existing (normalizeAnchors (orElse (rrepoSources c) []) headSha) c) m"
      by (intro mergeCandidate_existing) simp_all
    then show "\<exists>f. mergeCandidate headSha m c = mapSet p f m
                \<and> repoSources f =
                    (if normalizeAnchors (orElse (rrepoSources c) []) headSha \<noteq> []
                     then normalizeAnchors (orElse (rrepoSources c) []) headSha
                     else repoSources existing)"
      using updatedFact_sources by blast
  qed
  show ?thesis
    using finalFacts_anchored [OF det] det mergeFacts_anchored [OF det] existing
      mergeCandidate_no_anchors [of c p m headSha] addFact_no_anchors [of d "ctxHeadSha context" st]
      buildFactsAndMutations_facts [OF assms]
    by (intro conjI) blast+
qed

text \<open>
  The theorem at a run on the empty document: the baseline gives the title fact and the
  changelog fact; the service proposes a fact without anchors at a new path, which is
  dropped, and new anchors for the title, which replace the old one.
\<close>

theorem anchor_invariant_witness:
  "buildFactsAndMutations env0 0 (JObj []) [''README.md''] ctx0
     = Inr (JObj [(''meta'', JObj [(''title'', JStr ''ML System Card (GitHub-native, PR-first)'')]),
                  (''provenance'', JObj [(''changelog'', JArr [changelogEntry])])],
            [titleFact, changelogFact])
   \<and> list_all (\<lambda>f. repoSources f \<noteq> [])
        (finalFacts env0 (io0 (replyFor True ''supported'' None)) (Fin (65/100))
           [candidate ''$.business.kpis'', (candidate ''$.meta.title'')\<lparr>rrepoSources := Some [rawAnchorA]\<rparr>]
           [] ''abcdef0'' [titleFact, changelogFact])
   \<and> map jsonPath
        (finalFacts env0 (io0 (replyFor True ''supported'' None)) (Fin (65/100))
           [candidate ''$.business.kpis'', (candidate ''$.meta.title'')\<lparr>rrepoSources := Some [rawAnchorA]\<rparr>]
           [] ''abcdef0'' [titleFact, changelogFact])
       = [''$.meta.title'', ''$.provenance.changelog[0]'']"
proof -
  have a: "buildFactsAndMutations env0 0 (JObj []) [''README.md''] ctx0
     = Inr (JObj [(''meta'', JObj [(''title'', JStr ''ML System Card (GitHub-native, PR-first)'')]),
                  (''provenance'', JObj [(''changelog'', JArr [changelogEntry])])],
            [titleFact, changelogFact])"
    by code_simp
  have b: "map jsonPath
        (finalFacts env0 (io0 (replyFor True ''supported'' None)) (Fin (65/100))
           [candidate ''$.business.kpis'', (candidate ''$.meta.title'')\<lparr>rrepoSources := Some [rawAnchorA]\<rparr>]
           [] ''abcdef0'' [titleFact, changelogFact])
       = [''$.meta.title'', ''$.provenance.changelog[0]'']"
    by code_simp
  from anchor_invariant [OF a] a b show ?thesis
    by (simp add: list_all_iff)
qed

section \<open>What the reasoner's reconciliation does not do\<close>

lemma mergeCandidate_deterministic_only:
  "rjsonPath c = Some p \<Longrightarrow> isDeterministicOnly p \<Longrightarrow> mergeCandidate headSha m c = m"
  by (simp add: mergeCandidate_def)

text \<open>
  C6, at its failing input. A patch of the reasoning pass that proposes the confidence
  1.7 for an existing fact: \<open>reconcileFacts\<close> stores 1.7, where the extractor's
  \<open>mergeFacts\<close>, which goes through \<open>normalizeConfidence\<close>, stores 1.
\<close>

theorem reconcile_confidence_unclamped:
  "map confidence
     (reconcileFacts env0 [factA] [(candidate ''$.business.useCase'')\<lparr>rconfidence := Some (Fin (17/10))\<rparr>]
        ''abcdef0'') = [Fin (17/10)]
   \<and> map confidence
     (mergeFacts env0 [(candidate ''$.business.useCase'')\<lparr>rconfidence := Some (Fin (17/10))\<rparr>] [factA]
        ''abcdef0'') = [Fin 1]"
  by code_simp

text \<open>
  C7, at its failing input. The changelog fact of the baseline stands at a
  deterministic-only path. A patch of the reasoning pass for that path replaces the
  proposed value in \<open>reconcileFacts\<close>; the same candidate leaves the facts of the
  extractor's \<open>mergeFacts\<close> as they were.
\<close>

theorem reconcile_overrides_deterministic_only:
  "isDeterministicOnly (jsonPath changelogFact)
   \<and> map proposedValue
       (reconcileFacts env0 [titleFact, changelogFact]
          [(candidate ''$.provenance.changelog[0]'')\<lparr>rproposedValue := Some (JStr ''overridden'')\<rparr>]
          ''abcdef0'') = [proposedValue titleFact, Some (JStr ''overridden'')]
   \<and> mergeFacts env0
          [(candidate ''$.provenance.changelog[0]'')\<lparr>rproposedValue := Some (JStr ''overridden'')\<rparr>]
          [titleFact, changelogFact] ''abcdef0'' = [titleFact, changelogFact]"
  by code_simp

section \<open>The canonicalizers: rounding at the top of the range\<close>

lemma floor_logI:
  assumes "1 < b" "b ^ n \<le> x" "x < b ^ Suc n"
  shows "\<lfloor>log b x\<rfloor> = int n"
proof -
  have "0 < b ^ n" using assms(1) by simp
  with assms(2) have x: "0 < x" by linarith
  have "b powr real_of_int (int n) = b ^ n" "b powr real_of_int (int n + 1) = b ^ Suc n"
    using assms(1) powr_realpow [of b n] powr_realpow [of b "Suc n"] by (simp_all add: add.commute)
  with assms floor_log_eq_powr_iff [of x b "int n"] x show ?thesis
    by simp
qed

lemma toPrecision_value:
  assumes "10 ^ (n + 2) \<le> x" "x < 10 ^ Suc (n + 2)" "\<lfloor>x / 10 ^ n + 1 / 2\<rfloor> = m"
  shows "toPrecision 3 x = real_of_int m * 10 ^ n"
proof -
  have "(0::real) < 10 ^ (n + 2)" by simp
  with assms(1) have x: "0 < x" by linarith
  have l: "\<lfloor>log 10 x\<rfloor> = int (n + 2)"
    by (rule floor_logI) (use assms in simp_all)
  have p: "(10::real) powr real_of_int (int n) = 10 ^ n"
    using powr_realpow [of 10 n] by simp
  have e: "int (n + 2) - (int 3 - 1) = int n"
    by simp
  show ?thesis
    unfolding toPrecision_def Let_def abs_of_pos [OF x] l e p assms(3) using x by simp
qed

lemma roundHalfEven_ge: "real_of_int k \<le> y \<Longrightarrow> k \<le> roundHalfEven y"
proof -
  assume "real_of_int k \<le> y"
  then have "k \<le> \<lfloor>y\<rfloor>" by (simp add: le_floor_iff)
  moreover have "\<lfloor>y\<rfloor> \<le> roundHalfEven y" by (simp add: roundHalfEven_def Let_def)
  ultimately show ?thesis by simp
qed

lemma parseFloat_overflow:
  assumes "2 ^ (n + 52) \<le> d" "d < 2 ^ Suc (n + 52)" "(2::real) ^ 1024 \<le> 2 ^ (n + 52)"
  shows "parseFloat d = PInf"
proof -
  have "(0::real) < 2 ^ (n + 52)" by simp
  with assms(1) have d: "0 < d" by linarith
  have l: "\<lfloor>log 2 d\<rfloor> = int (n + 52)"
    by (rule floor_logI) (use assms in simp_all)
  have m: "max (int (n + 52)) (- 1022) = int (n + 52)"
    by simp
  have e: "int (n + 52) - 52 = int n"
    by simp
  have p: "(2::real) powr real_of_int (int n) = 2 ^ n"
    using powr_realpow [of 2 n] by simp
  have "real_of_int (2 ^ 52) \<le> d / 2 ^ n"
    using assms(1) by (simp add: power_add field_simps)
  then have "2 ^ 52 \<le> roundHalfEven (d / 2 ^ n)"
    by (rule roundHalfEven_ge)
  then have "real_of_int (2 ^ 52) \<le> real_of_int (roundHalfEven (d / 2 ^ n))"
    by (simp only: of_int_le_iff)
  then have "(2::real) ^ 52 * 2 ^ n \<le> real_of_int (roundHalfEven (d / 2 ^ n)) * 2 ^ n"
    by simp
  then have "(2::real) ^ (n + 52) \<le> real_of_int (roundHalfEven (d / 2 ^ n)) * 2 ^ n"
    by (simp add: power_add mult.commute)
  with assms(3) have "(2::real) ^ 1024 \<le> real_of_int (roundHalfEven (d / 2 ^ n)) * 2 ^ n"
    by (rule order_trans)
  then show ?thesis
    unfolding parseFloat_def Let_def abs_of_pos [OF d] l m e p using d by simp
qed

text \<open>\<open>Number.MAX_VALUE.toPrecision(3)\<close> is \<open>1.80e+308\<close>, which \<open>parseFloat\<close> reads as
  \<open>Infinity\<close>.\<close>

lemma toPrecision_max: "toPrecision 3 MAX_VALUE = real_of_int 180 * 10 ^ 306"
  by (rule toPrecision_value) (simp_all add: MAX_VALUE_def floor_eq_iff)

lemma parseFloat_max: "parseFloat (toPrecision 3 MAX_VALUE) = PInf"
  unfolding toPrecision_max by (rule parseFloat_overflow [of 972]) simp_all

lemma normalizeNumber_max: "normalizeNumber (Fin MAX_VALUE) = JNum PInf"
proof -
  have "MAX_VALUE \<noteq> 0" by (simp add: MAX_VALUE_def)
  then show ?thesis
    by (simp add: normalizeNumber_def SIGNIFICANT_DIGITS_def parseFloat_max)
qed

lemma normalizeNumber_inf: "normalizeNumber PInf = JNull"
  by (simp add: normalizeNumber_def)

lemma sortedObject_one: "parseIndex k = None \<Longrightarrow> sortedObject E [(k, v)] = JObj [(k, v)]"
  by (simp add: sortedObject_def sort_by_def fromEntries_def objSet_def)

lemma parseIndex_letter: "\<not> isDigit (hd s) \<Longrightarrow> s \<noteq> [] \<Longrightarrow> parseIndex s = None"
  by (cases s) (simp_all add: parseIndex_def isDigits_def)

text \<open>
  Claim C1 (the canonicalizer is idempotent) fails in both files on a card that holds the
  largest double, \<open>1.7976931348623157e308\<close>: the first pass rounds it to three significant
  digits and reads \<open>1.80e+308\<close> back as \<open>Infinity\<close>, so the canonical form holds a number
  that is not finite, and the second pass turns that number into \<open>null\<close>.
\<close>

theorem normalizeCard_overflow_not_idempotent:
  "libNormalizeCard E (metricsCard (JNum (Fin MAX_VALUE))) [] = Inr (metricsCard (JNum PInf))
   \<and> libNormalizeCard E (metricsCard (JNum PInf)) [] = Inr (metricsCard JNull)
   \<and> normalizeCard E (metricsCard (JNum (Fin MAX_VALUE))) [] = Inr (metricsCard (JNum PInf))
   \<and> normalizeCard E (metricsCard (JNum PInf)) [] = Inr (metricsCard JNull)"
  by (simp add: metricsCard_def normalizeNumber_max normalizeNumber_inf sortedObject_one
      parseIndex_letter isDigit_def sortWith_def arraySorters_def ARRAY_SORTERS_def)

section \<open>The two canonicalizers compared\<close>





























end
